theory Spec2Isabelle
  imports Main
begin

section \<open>Wire vocabulary\<close>

text \<open>
  The A2A values the dispatch core, the storage adapters and the event channel exchange
  (\<^verbatim>\<open>src/lib/a2a/schemas\<close> and the types of \<^verbatim>\<open>@a2a-js/sdk\<close> the code imports).
  A \<^verbatim>\<open>kind\<close> field that is a literal (\<^verbatim>\<open>"message"\<close>, \<^verbatim>\<open>"task"\<close>) is the type itself and has
  no field of its own. The \<^verbatim>\<open>data\<close> of a data part is an object, as the SDK types it. Wall-clock time (\<^verbatim>\<open>new Date().toISOString()\<close>) and
  \<^verbatim>\<open>crypto.randomUUID()\<close> are inputs of the operations that read them.
\<close>

datatype jval =
    JNull
  | JBool bool
  | JNum int
  | JStr string
  | JArr "jval list"
  | JObj "(string \<times> jval) list"

type_synonym jobject = "(string \<times> jval) list"

text \<open>
  A text column of the relational backend holds either the empty string or what
  \<^verbatim>\<open>JSON.stringify\<close> returned; \<^verbatim>\<open>JSON.parse\<close> gives the value back. Metadata is an object,
  except where the code stringifies a column that is text already: what is read back then
  is that text (\<open>MetaStr\<close>).
\<close>

datatype metadata = MetaObj jobject | MetaStr meta_text
and meta_text = EmptyText | JsonText metadata

datatype 'a json_text = Stringify 'a

fun JSON_parse :: "'a json_text \<Rightarrow> 'a" where
  "JSON_parse (Stringify v) = v"

datatype role = Agent | User

datatype task_state =
    Submitted | Working | InputRequired | Completed | Canceled
  | Failed | Rejected | AuthRequired | Unknown

datatype part =
    TextPart string "jobject option"
  | FilePart jval "jobject option"
  | DataPart jobject "jobject option"

record message =
  messageId :: string
  role :: role
  parts :: "part list"
  contextId :: "string option"
  taskId :: "string option"
  extensions :: "string list option"
  metadata :: "metadata option"
  referenceTaskIds :: "string list option"

record task_status =
  state :: task_state
  status_message :: "message option"
  timestamp :: "string option"

record artifact =
  artifactId :: string
  name :: "string option"
  description :: "string option"
  artifact_parts :: "part list"
  artifact_extensions :: "string list option"
  artifact_metadata :: "metadata option"

text \<open>\<^verbatim>\<open>Artifact1 & { taskId: string }\<close>: an artifact together with its owning task.\<close>

record artifact_with_taskId =
  owner_taskId :: string
  the_artifact :: artifact

record task =
  task_id :: string
  task_contextId :: string
  status :: task_status
  artifacts :: "artifact list option"
  history :: "message list option"
  task_metadata :: "metadata option"

datatype error =
    TaskNotFound string
  | NoExecutorFound "string list option"
  | MissingIdentifiers
  | ValidationError
  | ConstraintFailed string
  | ExecutorError string

text \<open>
  JavaScript truthiness of an optional string: \<^verbatim>\<open>undefined\<close> and the empty string are
  falsy. \<open>or_string a b\<close> is \<^verbatim>\<open>a || b\<close>.
\<close>

fun truthy :: "string option \<Rightarrow> bool" where
  "truthy None = False"
| "truthy (Some s) = (s \<noteq> [])"

definition or_string :: "string option \<Rightarrow> string option \<Rightarrow> string option" where
  "or_string a b = (if truthy a then a else b)"

definition or_null :: "string option \<Rightarrow> string option" where
  "or_null a = (if truthy a then a else None)"


section \<open>In-memory storage adapter\<close>

text \<open>
  \<^verbatim>\<open>MemoryStorageAdapter\<close>. \<^verbatim>\<open>tasks\<close> and \<^verbatim>\<open>messages\<close> are JavaScript Maps read by key only;
  \<^verbatim>\<open>artifacts\<close> is iterated by \<^verbatim>\<open>getTaskArtifacts\<close>, so its insertion order is kept:
  \<open>Map_set\<close> overwrites an existing key in place and appends a new one, as \<^verbatim>\<open>Map.set\<close> does.
\<close>

record MemoryStore =
  tasks :: "string \<rightharpoonup> task"
  messages :: "string \<rightharpoonup> message list"
  mem_artifacts :: "(string \<times> artifact_with_taskId) list"

definition MemoryStore_empty :: MemoryStore where
  "MemoryStore_empty = \<lparr> tasks = Map.empty, messages = Map.empty, mem_artifacts = [] \<rparr>"

fun Map_set :: "'k \<Rightarrow> 'v \<Rightarrow> ('k \<times> 'v) list \<Rightarrow> ('k \<times> 'v) list" where
  "Map_set k v [] = [(k, v)]"
| "Map_set k v ((k', v') # kvs) =
     (if k' = k then (k, v) # kvs else (k', v') # Map_set k v kvs)"

definition Memory_saveTask :: "task \<Rightarrow> MemoryStore \<Rightarrow> MemoryStore" where
  "Memory_saveTask t s = s\<lparr> tasks := (tasks s)(task_id t \<mapsto> t) \<rparr>"

definition Memory_getTask :: "string \<Rightarrow> MemoryStore \<Rightarrow> task option" where
  "Memory_getTask tid s = tasks s tid"

definition Memory_saveMessage :: "string \<Rightarrow> message \<Rightarrow> MemoryStore \<Rightarrow> MemoryStore" where
  "Memory_saveMessage tid m s =
     (let msgs = (case messages s tid of None \<Rightarrow> [] | Some ms \<Rightarrow> ms)
      in s\<lparr> messages := (messages s)(tid \<mapsto> msgs @ [m]) \<rparr>)"

definition Memory_getMessages :: "string \<Rightarrow> MemoryStore \<Rightarrow> message list" where
  "Memory_getMessages tid s = (case messages s tid of None \<Rightarrow> [] | Some ms \<Rightarrow> ms)"

definition Memory_updateTaskStatus ::
  "string \<Rightarrow> task_status \<Rightarrow> MemoryStore \<Rightarrow> error + MemoryStore" where
  "Memory_updateTaskStatus tid st s =
     (case tasks s tid of
        None \<Rightarrow> Inl (TaskNotFound tid)
      | Some t \<Rightarrow>
          (case status_message st of
             None \<Rightarrow> Inr (s\<lparr> tasks := (tasks s)(tid \<mapsto> t\<lparr> status := st \<rparr>) \<rparr>)
           | Some m \<Rightarrow>
               (let h = (case history t of None \<Rightarrow> [] | Some ms \<Rightarrow> ms);
                    t' = t\<lparr> status := st, history := Some (h @ [m]) \<rparr>
                in Inr (Memory_saveMessage tid m (s\<lparr> tasks := (tasks s)(tid \<mapsto> t') \<rparr>)))))"

definition Memory_updateArtifact :: "artifact_with_taskId \<Rightarrow> MemoryStore \<Rightarrow> MemoryStore" where
  "Memory_updateArtifact a s =
     (let s1 = s\<lparr> mem_artifacts := Map_set (artifactId (the_artifact a)) a (mem_artifacts s) \<rparr>
      in case tasks s1 (owner_taskId a) of
           None \<Rightarrow> s1
         | Some t \<Rightarrow>
             (let as = (case artifacts t of None \<Rightarrow> [] | Some xs \<Rightarrow> xs)
              in s1\<lparr> tasks := (tasks s1)(owner_taskId a \<mapsto>
                       t\<lparr> artifacts := Some (as @ [the_artifact a]) \<rparr>) \<rparr>))"

definition Memory_getArtifact :: "string \<Rightarrow> MemoryStore \<Rightarrow> artifact option" where
  "Memory_getArtifact aid s = map_option the_artifact (map_of (mem_artifacts s) aid)"

definition Memory_getTaskArtifacts :: "string \<Rightarrow> MemoryStore \<Rightarrow> artifact list" where
  "Memory_getTaskArtifacts tid s =
     map (the_artifact \<circ> snd) (filter (\<lambda>(k, a). owner_taskId a = tid) (mem_artifacts s))"

definition Memory_getTaskWithHistory ::
  "string \<Rightarrow> MemoryStore \<Rightarrow> (task \<times> message list \<times> artifact list) option" where
  "Memory_getTaskWithHistory tid s =
     (case Memory_getTask tid s of
        None \<Rightarrow> None
      | Some t \<Rightarrow> Some (t, Memory_getMessages tid s, Memory_getTaskArtifacts tid s))"


section \<open>Relational (Drizzle) storage adapter\<close>

text \<open>
  \<^verbatim>\<open>DrizzleStorageAdapter\<close> over the four tables of \<^verbatim>\<open>drizzle/0000_fluffy_vin_gonzales.sql\<close>.
  A table is the list of its rows in insertion order, which is also the order a
  \<^verbatim>\<open>select\<close> without \<^verbatim>\<open>orderBy\<close> reads them in. The columns \<^verbatim>\<open>kind\<close>, \<^verbatim>\<open>created_at\<close> and
  \<^verbatim>\<open>updated_at\<close> are never read back by the adapter and are left out. Primary keys:
  \<^verbatim>\<open>a2a_tasks.id\<close>, \<^verbatim>\<open>a2a_messages.id\<close>, \<^verbatim>\<open>a2a_artifacts.id\<close> and the pair
  \<^verbatim>\<open>(a2a_task_id, a2a_message_id)\<close> of \<^verbatim>\<open>a2a_task_messages\<close>. Whether the database enforces
  the declared foreign keys is a setting of the database (\<open>foreign_keys\<close>).
\<close>

record DbTaskRow =
  row_id :: string
  row_status :: "task_status json_text"
  statusState :: task_state
  statusMessage :: "message json_text option"
  statusReason :: "string option"
  row_contextId :: "string option"
  row_extensions :: "string option"
  row_metadata :: meta_text

record DbMessageRow =
  msg_id :: string
  msg_taskId :: string
  msg_messageId :: string
  msg_role :: role
  msg_parts :: "part list json_text"
  msg_contextId :: "string option"
  msg_extensions :: "string list json_text option"
  msg_metadata :: meta_text

record DbArtifactRow =
  art_id :: string
  art_taskId :: string
  art_artifactId :: string
  art_name :: "string option"
  art_description :: "string option"
  art_parts :: "part list json_text"
  art_extensions :: "string list json_text option"
  art_metadata :: "meta_text option"

record DbTaskMessageRow =
  tm_taskId :: string
  tm_messageId :: string
  tm_sequence :: int

record DrizzleDb =
  db_tasks :: "DbTaskRow list"
  db_messages :: "DbMessageRow list"
  db_artifacts :: "DbArtifactRow list"
  db_taskMessages :: "DbTaskMessageRow list"
  foreign_keys :: bool

definition DrizzleDb_empty :: "bool \<Rightarrow> DrizzleDb" where
  "DrizzleDb_empty fk =
     \<lparr> db_tasks = [], db_messages = [], db_artifacts = [], db_taskMessages = [],
       foreign_keys = fk \<rparr>"

text \<open>Truthiness of a metadata value and of a text column.\<close>

fun meta_truthy :: "metadata \<Rightarrow> bool" where
  "meta_truthy (MetaObj kvs) = True"
| "meta_truthy (MetaStr t) = (t \<noteq> EmptyText)"

fun parse_metadata :: "meta_text \<Rightarrow> metadata" where
  "parse_metadata EmptyText = MetaObj []"
| "parse_metadata (JsonText m) = m"

definition taskToDb :: "task \<Rightarrow> DbTaskRow" where
  "taskToDb t =
     \<lparr> row_id = task_id t,
       row_status = Stringify (status t),
       statusState = state (status t),
       statusMessage = map_option Stringify (status_message (status t)),
       statusReason = None,
       row_contextId = or_null (Some (task_contextId t)),
       row_extensions = None,
       row_metadata =
         JsonText (case task_metadata t of
                     None \<Rightarrow> MetaObj []
                   | Some m \<Rightarrow> if meta_truthy m then m else MetaObj []) \<rparr>"

definition dbToTask :: "DbTaskRow \<Rightarrow> task" where
  "dbToTask r =
     \<lparr> task_id = row_id r,
       task_contextId = (case row_contextId r of None \<Rightarrow> [] | Some c \<Rightarrow> c),
       status = \<lparr> state = statusState r,
                  status_message = map_option JSON_parse (statusMessage r),
                  timestamp = None \<rparr>,
       artifacts = None,
       history = None,
       task_metadata = Some (parse_metadata (row_metadata r)) \<rparr>"

definition messageToDb :: "message \<Rightarrow> string \<Rightarrow> string \<Rightarrow> DbMessageRow" where
  "messageToDb m tid uuid =
     \<lparr> msg_id = uuid,
       msg_taskId = tid,
       msg_messageId = messageId m,
       msg_role = role m,
       msg_parts = Stringify (parts m),
       msg_contextId = or_null (contextId m),
       msg_extensions = map_option Stringify (extensions m),
       msg_metadata =
         (case metadata m of
            None \<Rightarrow> EmptyText
          | Some md \<Rightarrow> if meta_truthy md then JsonText md else EmptyText) \<rparr>"

definition dbToMessage :: "DbMessageRow \<Rightarrow> message" where
  "dbToMessage r =
     \<lparr> messageId = msg_messageId r,
       role = msg_role r,
       parts = JSON_parse (msg_parts r),
       contextId = or_null (msg_contextId r),
       taskId = None,
       extensions = map_option JSON_parse (msg_extensions r),
       metadata = Some (parse_metadata (msg_metadata r)),
       referenceTaskIds = None \<rparr>"

definition artifactToDb :: "artifact_with_taskId \<Rightarrow> string \<Rightarrow> DbArtifactRow" where
  "artifactToDb a uuid =
     \<lparr> art_id = uuid,
       art_taskId = owner_taskId a,
       art_artifactId = artifactId (the_artifact a),
       art_name = or_null (name (the_artifact a)),
       art_description = or_null (description (the_artifact a)),
       art_parts = Stringify (artifact_parts (the_artifact a)),
       art_extensions = map_option Stringify (artifact_extensions (the_artifact a)),
       art_metadata = map_option JsonText (artifact_metadata (the_artifact a)) \<rparr>"

definition dbToArtifact :: "DbArtifactRow \<Rightarrow> artifact" where
  "dbToArtifact r =
     \<lparr> artifactId = art_artifactId r,
       name = or_null (art_name r),
       description = or_null (art_description r),
       artifact_parts = JSON_parse (art_parts r),
       artifact_extensions = map_option JSON_parse (art_extensions r),
       artifact_metadata =
         Some (case art_metadata r of None \<Rightarrow> MetaObj [] | Some t \<Rightarrow> parse_metadata t) \<rparr>"

text \<open>
  \<^verbatim>\<open>insert(...).values(new).onConflictDoUpdate({target, set})\<close>: the row that holds the
  target key already is updated in place, otherwise the new row is appended.
\<close>

fun upsert_row :: "('r \<Rightarrow> bool) \<Rightarrow> ('r \<Rightarrow> 'r) \<Rightarrow> 'r \<Rightarrow> 'r list \<Rightarrow> 'r list" where
  "upsert_row conflicts upd new [] = [new]"
| "upsert_row conflicts upd new (r # rs) =
     (if conflicts r then upd r # rs else r # upsert_row conflicts upd new rs)"

definition task_exists :: "string \<Rightarrow> DrizzleDb \<Rightarrow> bool" where
  "task_exists tid db = (tid \<in> set (map row_id (db_tasks db)))"

definition fk_ok :: "string \<Rightarrow> DrizzleDb \<Rightarrow> bool" where
  "fk_ok tid db = (if foreign_keys db then task_exists tid db else True)"

definition Drizzle_saveTask :: "task \<Rightarrow> DrizzleDb \<Rightarrow> DrizzleDb" where
  "Drizzle_saveTask t db =
     (let dbTask = taskToDb t
      in db\<lparr> db_tasks :=
               upsert_row (\<lambda>r. row_id r = row_id dbTask)
                 (\<lambda>r. r\<lparr> row_status := row_status dbTask,
                          statusState := statusState dbTask,
                          statusMessage := statusMessage dbTask,
                          statusReason := statusReason dbTask,
                          row_contextId := row_contextId dbTask,
                          row_extensions := row_extensions dbTask,
                          row_metadata := row_metadata dbTask \<rparr>)
                 dbTask (db_tasks db) \<rparr>)"

definition Drizzle_getTask :: "string \<Rightarrow> DrizzleDb \<Rightarrow> task option" where
  "Drizzle_getTask tid db = map_option dbToTask (find (\<lambda>r. row_id r = tid) (db_tasks db))"

definition Drizzle_updateTaskStatus ::
  "string \<Rightarrow> task_status \<Rightarrow> DrizzleDb \<Rightarrow> error + DrizzleDb" where
  "Drizzle_updateTaskStatus tid st db =
     Inr (db\<lparr> db_tasks :=
             map (\<lambda>r. if row_id r = tid
                      then r\<lparr> row_status := Stringify st,
                              statusState := state st,
                              statusMessage := map_option Stringify (status_message st),
                              statusReason := None \<rparr>
                      else r)
                 (db_tasks db) \<rparr>)"

text \<open>
  \<^verbatim>\<open>saveMessage\<close>. \<^verbatim>\<open>DbMessageRowSchema.safeParse(dbMessage)\<close> asks for strings in the
  columns \<^verbatim>\<open>messageToDb\<close> fills with strings, so it succeeds on every \<open>message\<close>.
  \<open>uuid\<close> is what \<^verbatim>\<open>crypto.randomUUID()\<close> returned inside \<^verbatim>\<open>messageToDb\<close>.
\<close>

definition nextSequence :: "string \<Rightarrow> DrizzleDb \<Rightarrow> int" where
  "nextSequence tid db =
     (case map tm_sequence (filter (\<lambda>r. tm_taskId r = tid) (db_taskMessages db)) of
        [] \<Rightarrow> 0
      | q # qs \<Rightarrow> fold max qs q) + 1"

definition Drizzle_saveMessage ::
  "string \<Rightarrow> message \<Rightarrow> string \<Rightarrow> DrizzleDb \<Rightarrow> error + DrizzleDb" where
  "Drizzle_saveMessage tid m uuid db =
     (let dbMessage = messageToDb m tid uuid;
          conflict = (msg_id dbMessage \<in> set (map msg_id (db_messages db)))
      in if \<not> conflict \<and> \<not> fk_ok tid db then Inl (ConstraintFailed ''a2a_messages.a2a_task_id'')
         else
           (let db1 = db\<lparr> db_messages :=
                  upsert_row (\<lambda>r. msg_id r = msg_id dbMessage)
                    (\<lambda>r. r\<lparr> msg_role := msg_role dbMessage,
                             msg_parts := msg_parts dbMessage,
                             msg_contextId := msg_contextId dbMessage,
                             msg_extensions := msg_extensions dbMessage,
                             msg_metadata :=
                               (if msg_metadata dbMessage = EmptyText then EmptyText
                                else JsonText (MetaStr (msg_metadata dbMessage))) \<rparr>)
                    dbMessage (db_messages db) \<rparr>;
                seq = nextSequence tid db1
            in if (tid, msg_id dbMessage) \<in>
                    set (map (\<lambda>r. (tm_taskId r, tm_messageId r)) (db_taskMessages db1))
               then Inr db1
               else if \<not> fk_ok tid db1
               then Inl (ConstraintFailed ''a2a_task_messages.a2a_task_id'')
               else Inr (db1\<lparr> db_taskMessages := db_taskMessages db1 @
                           [\<lparr> tm_taskId = tid, tm_messageId = msg_id dbMessage,
                              tm_sequence = seq \<rparr>] \<rparr>)))"

text \<open>
  \<^verbatim>\<open>getMessages\<close>: the inner join of messages and task-messages on the message row id,
  restricted to the task and ordered by \<^verbatim>\<open>sequence\<close> ascending.
\<close>

definition joined_rows :: "string \<Rightarrow> DrizzleDb \<Rightarrow> (DbMessageRow \<times> DbTaskMessageRow) list" where
  "joined_rows tid db =
     concat (map (\<lambda>m. map (\<lambda>tm. (m, tm))
                         (filter (\<lambda>tm. msg_id m = tm_messageId tm \<and> tm_taskId tm = tid)
                                 (db_taskMessages db)))
                 (db_messages db))"

definition Drizzle_getMessages :: "string \<Rightarrow> DrizzleDb \<Rightarrow> message list" where
  "Drizzle_getMessages tid db =
     map (dbToMessage \<circ> fst) (sort_key (tm_sequence \<circ> snd) (joined_rows tid db))"

definition Drizzle_updateArtifact ::
  "artifact_with_taskId \<Rightarrow> string \<Rightarrow> DrizzleDb \<Rightarrow> error + DrizzleDb" where
  "Drizzle_updateArtifact a uuid db =
     (let dbArtifact = artifactToDb a uuid;
          conflict = (art_id dbArtifact \<in> set (map art_id (db_artifacts db)))
      in if art_metadata dbArtifact = None then Inl (ConstraintFailed ''a2a_artifacts.metadata'')
         else if \<not> conflict \<and> \<not> fk_ok (owner_taskId a) db
         then Inl (ConstraintFailed ''a2a_artifacts.a2a_task_id'')
         else Inr (db\<lparr> db_artifacts :=
                 upsert_row (\<lambda>r. art_id r = art_id dbArtifact)
                   (\<lambda>r. r\<lparr> art_name := art_name dbArtifact,
                            art_description := art_description dbArtifact,
                            art_parts := art_parts dbArtifact,
                            art_extensions := art_extensions dbArtifact,
                            art_metadata := art_metadata dbArtifact \<rparr>)
                   dbArtifact (db_artifacts db) \<rparr>))"

definition Drizzle_getArtifact :: "string \<Rightarrow> DrizzleDb \<Rightarrow> artifact option" where
  "Drizzle_getArtifact aid db =
     map_option dbToArtifact (find (\<lambda>r. art_artifactId r = aid) (db_artifacts db))"

definition Drizzle_getTaskArtifacts :: "string \<Rightarrow> DrizzleDb \<Rightarrow> artifact list" where
  "Drizzle_getTaskArtifacts tid db =
     map dbToArtifact (filter (\<lambda>r. art_taskId r = tid) (db_artifacts db))"

definition Drizzle_getTaskWithHistory ::
  "string \<Rightarrow> DrizzleDb \<Rightarrow> (task \<times> message list \<times> artifact list) option" where
  "Drizzle_getTaskWithHistory tid db =
     (case Drizzle_getTask tid db of
        None \<Rightarrow> None
      | Some t \<Rightarrow> Some (t, Drizzle_getMessages tid db, Drizzle_getTaskArtifacts tid db))"


section \<open>In-process event channel\<close>

text \<open>
  \<^verbatim>\<open>integrations/nextjs/sse.ts\<close>. The module-level \<^verbatim>\<open>connections\<close> maps a task id to the set
  of stream controllers of its observers (a JavaScript Set: distinct, in insertion
  order). A controller is an object of the runtime, named here by a number: what was
  enqueued on it so far, and whether its stream is closed (by the server's \<^verbatim>\<open>close()\<close> or
  by the client going away), after which \<^verbatim>\<open>enqueue\<close> and \<^verbatim>\<open>close\<close> throw. The frame
  \<^verbatim>\<open>encodeMessage\<close> builds from an event is represented by the event.
\<close>

datatype A2AEvent =
    TaskStatusUpdateEvent string string task_status bool
  | TaskArtifactUpdateEvent string string artifact

fun event_taskId :: "A2AEvent \<Rightarrow> string" where
  "event_taskId (TaskStatusUpdateEvent tid cid st final) = tid"
| "event_taskId (TaskArtifactUpdateEvent tid cid a) = tid"

fun is_artifact_update :: "A2AEvent \<Rightarrow> bool" where
  "is_artifact_update (TaskStatusUpdateEvent tid cid st final) = False"
| "is_artifact_update (TaskArtifactUpdateEvent tid cid a) = True"

record controller =
  closed :: bool
  enqueued :: "A2AEvent list"

record SSEState =
  connections :: "string \<rightharpoonup> nat list"
  controllers :: "nat \<Rightarrow> controller"

definition SSEState_empty :: SSEState where
  "SSEState_empty =
     \<lparr> connections = Map.empty, controllers = (\<lambda>c. \<lparr> closed = False, enqueued = [] \<rparr>) \<rparr>"

text \<open>
  The first loop of \<^verbatim>\<open>sendSSEEvent\<close>: enqueue on every controller of the set; one whose
  \<^verbatim>\<open>enqueue\<close> throws is deleted from the set. Returns the controllers that stay.
\<close>

fun enqueue_all ::
  "A2AEvent \<Rightarrow> nat list \<Rightarrow> (nat \<Rightarrow> controller) \<Rightarrow> nat list \<times> (nat \<Rightarrow> controller)" where
  "enqueue_all ev [] h = ([], h)"
| "enqueue_all ev (c # cs) h =
     (if closed (h c) then enqueue_all ev cs h
      else (let (keep, h') = enqueue_all ev cs (h(c := (h c)\<lparr> enqueued := enqueued (h c) @ [ev] \<rparr>))
            in (c # keep, h')))"

text \<open>The second loop: \<^verbatim>\<open>controller.close()\<close> on each, errors ignored.\<close>

fun close_all :: "nat list \<Rightarrow> (nat \<Rightarrow> controller) \<Rightarrow> (nat \<Rightarrow> controller)" where
  "close_all [] h = h"
| "close_all (c # cs) h = close_all cs (h(c := (h c)\<lparr> closed := True \<rparr>))"

definition sendSSEEvent :: "A2AEvent \<Rightarrow> SSEState \<Rightarrow> SSEState" where
  "sendSSEEvent ev s =
     (case connections s (event_taskId ev) of
        None \<Rightarrow> s
      | Some cs \<Rightarrow>
          if cs = [] then s
          else
            (let (keep, h) = enqueue_all ev cs (controllers s);
                 conns1 = (if keep = [] then (connections s)(event_taskId ev := None)
                           else (connections s)(event_taskId ev \<mapsto> keep))
             in if is_artifact_update ev
                then \<lparr> connections = conns1(event_taskId ev := None),
                       controllers = close_all keep h \<rparr>
                else \<lparr> connections = conns1, controllers = h \<rparr>))"

definition getActiveConnections :: "string \<Rightarrow> SSEState \<Rightarrow> nat" where
  "getActiveConnections tid s = (case connections s tid of None \<Rightarrow> 0 | Some cs \<Rightarrow> length cs)"

text \<open>
  What \<^verbatim>\<open>start(controller)\<close> does to the registry when an observer connects, and the
  listener it installs for the request's abort signal.
\<close>

definition add_connection :: "string \<Rightarrow> nat \<Rightarrow> SSEState \<Rightarrow> SSEState" where
  "add_connection tid c s =
     (let cs = (case connections s tid of None \<Rightarrow> [] | Some xs \<Rightarrow> xs)
      in s\<lparr> connections := (connections s)(tid \<mapsto> (if c \<in> set cs then cs else cs @ [c])) \<rparr>)"



section \<open>Executor registry and dispatch core\<close>

text \<open>
  \<^verbatim>\<open>core.ts\<close>. The world a call runs in is the configured storage adapter (absent when
  \<^verbatim>\<open>config.storage\<close> is undefined) and the in-process connection registry. An operation
  returns its result, or the error it throws, together with the world it leaves: what
  happened before a throw stays.
\<close>

datatype storage = NoStorage | MemoryStorage MemoryStore | DrizzleStorage DrizzleDb

record world =
  storage :: storage
  sse :: SSEState

datatype eventSender = defaultEventSender | SSEEventSender

type_synonym jinput = "string \<rightharpoonup> jval"

record Executor =
  extension :: string
  input :: "(jinput \<Rightarrow> jinput option) option"
  output_schema :: "(jval \<Rightarrow> jval option) option"
  execute_fn :: "jinput \<Rightarrow> string \<Rightarrow> string \<Rightarrow> world \<Rightarrow> (error + jval) \<times> world"

text \<open>\<^verbatim>\<open>await storage?.op(...)\<close> for each operation of the adapter interface.\<close>

fun storage_saveTask :: "task \<Rightarrow> storage \<Rightarrow> error + storage" where
  "storage_saveTask t NoStorage = Inr NoStorage"
| "storage_saveTask t (MemoryStorage s) = Inr (MemoryStorage (Memory_saveTask t s))"
| "storage_saveTask t (DrizzleStorage db) = Inr (DrizzleStorage (Drizzle_saveTask t db))"

fun storage_getTask :: "string \<Rightarrow> storage \<Rightarrow> task option" where
  "storage_getTask tid NoStorage = None"
| "storage_getTask tid (MemoryStorage s) = Memory_getTask tid s"
| "storage_getTask tid (DrizzleStorage db) = Drizzle_getTask tid db"

fun storage_updateTaskStatus :: "string \<Rightarrow> task_status \<Rightarrow> storage \<Rightarrow> error + storage" where
  "storage_updateTaskStatus tid st NoStorage = Inr NoStorage"
| "storage_updateTaskStatus tid st (MemoryStorage s) =
     map_sum id MemoryStorage (Memory_updateTaskStatus tid st s)"
| "storage_updateTaskStatus tid st (DrizzleStorage db) =
     map_sum id DrizzleStorage (Drizzle_updateTaskStatus tid st db)"

fun storage_saveMessage :: "string \<Rightarrow> message \<Rightarrow> string \<Rightarrow> storage \<Rightarrow> error + storage" where
  "storage_saveMessage tid m uuid NoStorage = Inr NoStorage"
| "storage_saveMessage tid m uuid (MemoryStorage s) =
     Inr (MemoryStorage (Memory_saveMessage tid m s))"
| "storage_saveMessage tid m uuid (DrizzleStorage db) =
     map_sum id DrizzleStorage (Drizzle_saveMessage tid m uuid db)"

fun storage_getMessages :: "string \<Rightarrow> storage \<Rightarrow> message list" where
  "storage_getMessages tid NoStorage = []"
| "storage_getMessages tid (MemoryStorage s) = Memory_getMessages tid s"
| "storage_getMessages tid (DrizzleStorage db) = Drizzle_getMessages tid db"

fun storage_updateArtifact :: "artifact_with_taskId \<Rightarrow> string \<Rightarrow> storage \<Rightarrow> error + storage" where
  "storage_updateArtifact a uuid NoStorage = Inr NoStorage"
| "storage_updateArtifact a uuid (MemoryStorage s) =
     Inr (MemoryStorage (Memory_updateArtifact a s))"
| "storage_updateArtifact a uuid (DrizzleStorage db) =
     map_sum id DrizzleStorage (Drizzle_updateArtifact a uuid db)"

fun storage_getTaskArtifacts :: "string \<Rightarrow> storage \<Rightarrow> artifact list" where
  "storage_getTaskArtifacts tid NoStorage = []"
| "storage_getTaskArtifacts tid (MemoryStorage s) = Memory_getTaskArtifacts tid s"
| "storage_getTaskArtifacts tid (DrizzleStorage db) = Drizzle_getTaskArtifacts tid db"

text \<open>
  Run a storage write in a world: the error, or the world with the new storage.
\<close>

definition with_storage :: "(storage \<Rightarrow> error + storage) \<Rightarrow> world \<Rightarrow> (error + unit) \<times> world" where
  "with_storage f w =
     (case f (storage w) of
        Inl e \<Rightarrow> (Inl e, w)
      | Inr st \<Rightarrow> (Inr (), w\<lparr> storage := st \<rparr>))"

fun send_event :: "eventSender \<Rightarrow> A2AEvent \<Rightarrow> world \<Rightarrow> world" where
  "send_event defaultEventSender ev w = w"
| "send_event SSEEventSender ev w = w\<lparr> sse := sendSSEEvent ev (sse w) \<rparr>"

fun findExecutor :: "string list \<Rightarrow> (string \<rightharpoonup> Executor) \<Rightarrow> Executor option" where
  "findExecutor [] executors = None"
| "findExecutor (x # xs) executors =
     (case executors x of Some e \<Rightarrow> Some e | None \<Rightarrow> findExecutor xs executors)"

definition register :: "Executor \<Rightarrow> (string \<rightharpoonup> Executor) \<Rightarrow> (string \<rightharpoonup> Executor)" where
  "register e executors = executors(extension e \<mapsto> e)"

fun is_text :: "part \<Rightarrow> bool" where
  "is_text (TextPart t md) = True"
| "is_text p = False"

fun is_data :: "part \<Rightarrow> bool" where
  "is_data (DataPart d md) = True"
| "is_data p = False"

definition extracted :: "message \<Rightarrow> jinput" where
  "extracted m =
     (case find is_text (parts m) of
        Some (TextPart t md) \<Rightarrow> [''text'' \<mapsto> JStr t]
      | _ \<Rightarrow> Map.empty)
     ++
     (case find is_data (parts m) of
        Some (DataPart d md) \<Rightarrow> map_of d
      | _ \<Rightarrow> Map.empty)"

definition extractInput :: "message \<Rightarrow> (jinput \<Rightarrow> jinput option) option \<Rightarrow> error + jinput" where
  "extractInput m schema =
     (case schema of
        None \<Rightarrow> Inr (extracted m)
      | Some parse \<Rightarrow>
          (case parse (extracted m) of
             None \<Rightarrow> Inl ValidationError
           | Some v \<Rightarrow> Inr v))"

text \<open>
  The executor context. \<open>now\<close> is the clock reading stored with a status; \<open>uuid\<close> is the
  row id the relational adapter draws when it inserts a message or an artifact.
\<close>

definition updateStatus ::
  "eventSender \<Rightarrow> string \<Rightarrow> string \<Rightarrow> task_status \<Rightarrow> string \<Rightarrow> world \<Rightarrow> (error + unit) \<times> world" where
  "updateStatus sender tid cid st now w =
     with_storage
       (storage_updateTaskStatus tid
          \<lparr> state = state st, status_message = status_message st, timestamp = Some now \<rparr>)
       (send_event sender (TaskStatusUpdateEvent tid cid st False) w)"

definition updateArtifact ::
  "eventSender \<Rightarrow> string \<Rightarrow> string \<Rightarrow> artifact \<Rightarrow> string \<Rightarrow> world \<Rightarrow> (error + unit) \<times> world" where
  "updateArtifact sender tid cid a uuid w =
     with_storage
       (storage_updateArtifact \<lparr> owner_taskId = tid, the_artifact = a \<rparr> uuid)
       (send_event sender (TaskArtifactUpdateEvent tid cid a) w)"

definition getTask :: "string \<Rightarrow> world \<Rightarrow> error + task" where
  "getTask tid w =
     (case storage_getTask tid (storage w) of
        None \<Rightarrow> Inl (TaskNotFound tid)
      | Some t \<Rightarrow> Inr t)"

definition updateMessage ::
  "eventSender \<Rightarrow> string \<Rightarrow> string \<Rightarrow> message \<Rightarrow> string \<Rightarrow> string \<Rightarrow> world
     \<Rightarrow> (error + unit) \<times> world" where
  "updateMessage sender tid cid m now uuid w =
     with_storage
       (storage_saveMessage tid m uuid)
       (send_event sender
          (TaskStatusUpdateEvent tid cid
             \<lparr> state = Working, status_message = Some m, timestamp = Some now \<rparr> False) w)"

definition cancelTask ::
  "eventSender \<Rightarrow> string \<Rightarrow> string \<Rightarrow> message option \<Rightarrow> string \<Rightarrow> string \<Rightarrow> world
     \<Rightarrow> (error + unit) \<times> world" where
  "cancelTask sender tid cid m now1 now2 w =
     with_storage
       (storage_updateTaskStatus tid
          \<lparr> state = Canceled, status_message = m, timestamp = Some now2 \<rparr>)
       (send_event sender
          (TaskStatusUpdateEvent tid cid
             \<lparr> state = Canceled, status_message = m, timestamp = Some now1 \<rparr> False) w)"

text \<open>
  \<^verbatim>\<open>execute(message, options)\<close>. \<open>opt_taskId\<close> and \<open>opt_contextId\<close> are the fields of
  \<^verbatim>\<open>options\<close>; \<open>extensions_or_empty\<close> is \<^verbatim>\<open>message.extensions || []\<close>.
\<close>

definition submitted_task :: "string \<Rightarrow> string \<Rightarrow> message \<Rightarrow> string \<Rightarrow> task" where
  "submitted_task tid cid m now =
     \<lparr> task_id = tid,
       task_contextId = cid,
       status = \<lparr> state = Submitted, status_message = Some m, timestamp = Some now \<rparr>,
       artifacts = None,
       history = None,
       task_metadata = Some (MetaObj []) \<rparr>"

definition extensions_or_empty :: "message \<Rightarrow> string list" where
  "extensions_or_empty m = (case extensions m of None \<Rightarrow> [] | Some xs \<Rightarrow> xs)"

definition execute ::
  "(string \<rightharpoonup> Executor) \<Rightarrow> message \<Rightarrow> string option \<Rightarrow> string option \<Rightarrow> string \<Rightarrow> string
     \<Rightarrow> world \<Rightarrow> (error + jval) \<times> world" where
  "execute executors m opt_taskId opt_contextId now uuid w =
     (case findExecutor (extensions_or_empty m) executors of
        None \<Rightarrow> (Inl (NoExecutorFound (extensions m)), w)
      | Some executor \<Rightarrow>
          (case (or_string opt_taskId (taskId m), or_string opt_contextId (contextId m)) of
             (Some tid, Some cid) \<Rightarrow>
               if tid = [] then (Inl MissingIdentifiers, w)
               else if cid = [] then (Inl MissingIdentifiers, w)
               else
                 (case with_storage (storage_saveTask (submitted_task tid cid m now)) w of
                    (Inl e, w1) \<Rightarrow> (Inl e, w1)
                  | (Inr u, w1) \<Rightarrow>
                      (case with_storage (storage_saveMessage tid m uuid) w1 of
                         (Inl e, w2) \<Rightarrow> (Inl e, w2)
                       | (Inr u', w2) \<Rightarrow>
                           (case extractInput m (input executor) of
                              Inl e \<Rightarrow> (Inl e, w2)
                            | Inr i \<Rightarrow>
                                (case execute_fn executor i tid cid w2 of
                                   (Inl e, w3) \<Rightarrow> (Inl e, w3)
                                 | (Inr out, w3) \<Rightarrow>
                                     (case output_schema executor of
                                        None \<Rightarrow> (Inr out, w3)
                                      | Some parse \<Rightarrow>
                                          (case parse out of
                                             None \<Rightarrow> (Inl ValidationError, w3)
                                           | Some v \<Rightarrow> (Inr v, w3)))))))
           | _ \<Rightarrow> (Inl MissingIdentifiers, w)))"


section \<open>Subscribing to a task's events\<close>

text \<open>
  \<^verbatim>\<open>createSSEHandler\<close>: the request carries the query parameters \<^verbatim>\<open>taskId\<close> and
  \<^verbatim>\<open>contextId\<close>; \<open>c\<close> names the controller of the stream the handler creates, \<open>uuid_ctx\<close>
  and \<open>uuid_msg\<close> are the two \<^verbatim>\<open>crypto.randomUUID()\<close> draws, \<open>now_h\<close> and \<open>now\<close> the clock
  readings of the handler and of \<^verbatim>\<open>updateStatus\<close>. The promise \<^verbatim>\<open>a2a.updateStatus\<close> returns
  is not awaited: what it throws is dropped, what it did before stays.
\<close>

datatype response = BadRequest | EventStream nat

definition heartbeat :: "string \<Rightarrow> message" where
  "heartbeat uuid_msg =
     \<lparr> messageId = uuid_msg,
       role = Agent,
       parts = [TextPart ''SSE connection established'' None],
       contextId = None,
       taskId = None,
       extensions = None,
       metadata = Some (MetaObj []),
       referenceTaskIds = None \<rparr>"

definition createSSEHandler ::
  "eventSender \<Rightarrow> string option \<Rightarrow> string option \<Rightarrow> nat \<Rightarrow> string \<Rightarrow> string \<Rightarrow> string \<Rightarrow> string
     \<Rightarrow> world \<Rightarrow> response \<times> world" where
  "createSSEHandler sender q_taskId q_contextId c uuid_ctx uuid_msg now_h now w =
     (case q_taskId of
        None \<Rightarrow> (BadRequest, w)
      | Some tid \<Rightarrow>
          if tid = [] then (BadRequest, w)
          else
            (let cid = (case or_string q_contextId (Some uuid_ctx) of
                          Some x \<Rightarrow> x | None \<Rightarrow> uuid_ctx);
                 fresh = (sse w)\<lparr> controllers :=
                            (controllers (sse w))(c := \<lparr> closed = False, enqueued = [] \<rparr>) \<rparr>;
                 w1 = w\<lparr> sse := add_connection tid c fresh \<rparr>;
                 w2 = snd (updateStatus sender tid cid
                             \<lparr> state = Working,
                               status_message = Some (heartbeat uuid_msg),
                               timestamp = Some now_h \<rparr> now w1)
             in (EventStream c, w2)))"


section \<open>Validation of a file\<close>

text \<open>
  \<^verbatim>\<open>schemas/parts.ts\<close>, on a parsed JSON value (the keys of an object are distinct).
  A zod object schema takes an object, checks the keys of its shape and returns the
  object without the keys it does not know; \<^verbatim>\<open>z.union\<close> returns what the first option
  that accepts the value returns. What \<^verbatim>\<open>z.string().url()\<close> accepts is the parameter
  \<open>url\<close>.
\<close>

fun is_string :: "jval option \<Rightarrow> bool" where
  "is_string (Some (JStr s)) = True"
| "is_string v = False"

fun optional_string :: "jval option \<Rightarrow> bool" where
  "optional_string None = True"
| "optional_string (Some (JStr s)) = True"
| "optional_string v = False"

fun is_url_string :: "(string \<Rightarrow> bool) \<Rightarrow> jval option \<Rightarrow> bool" where
  "is_url_string url (Some (JStr s)) = url s"
| "is_url_string url v = False"

definition shape_keys :: "string list \<Rightarrow> jobject \<Rightarrow> jobject" where
  "shape_keys ks kvs =
     concat (map (\<lambda>k. case map_of kvs k of None \<Rightarrow> [] | Some v \<Rightarrow> [(k, v)]) ks)"

definition FileBaseSchema :: "jobject \<Rightarrow> bool" where
  "FileBaseSchema kvs =
     (optional_string (map_of kvs ''mimeType'') \<and> optional_string (map_of kvs ''name''))"

fun FileWithBytes :: "jval \<Rightarrow> jval option" where
  "FileWithBytes (JObj kvs) =
     (if FileBaseSchema kvs \<and> is_string (map_of kvs ''bytes'')
      then Some (JObj (shape_keys [''mimeType'', ''name'', ''bytes''] kvs))
      else None)"
| "FileWithBytes v = None"

fun FileWithUri :: "(string \<Rightarrow> bool) \<Rightarrow> jval \<Rightarrow> jval option" where
  "FileWithUri url (JObj kvs) =
     (if FileBaseSchema kvs \<and> is_url_string url (map_of kvs ''uri'')
      then Some (JObj (shape_keys [''mimeType'', ''name'', ''uri''] kvs))
      else None)"
| "FileWithUri url v = None"

definition FileSchema :: "(string \<Rightarrow> bool) \<Rightarrow> jval \<Rightarrow> jval option" where
  "FileSchema url v =
     (case FileWithBytes v of
        Some r \<Rightarrow> Some r
      | None \<Rightarrow> FileWithUri url v)"

fun MetadataSchema :: "jval option \<Rightarrow> bool" where
  "MetadataSchema None = True"
| "MetadataSchema (Some (JObj kvs)) = True"
| "MetadataSchema v = False"

fun FilePartSchema :: "(string \<Rightarrow> bool) \<Rightarrow> jval \<Rightarrow> jval option" where
  "FilePartSchema url (JObj kvs) =
     (if map_of kvs ''kind'' = Some (JStr ''file'') \<and> MetadataSchema (map_of kvs ''metadata'')
      then (case map_of kvs ''file'' of
              None \<Rightarrow> None
            | Some f \<Rightarrow>
                (case FileSchema url f of
                   None \<Rightarrow> None
                 | Some r \<Rightarrow>
                     Some (JObj ([(''kind'', JStr ''file''), (''file'', r)] @
                                 shape_keys [''metadata''] kvs))))
      else None)"
| "FilePartSchema url v = None"

text \<open>A URL check that accepts the one URL the examples below use, as zod's does.\<close>

definition example_url :: "string \<Rightarrow> bool" where
  "example_url u = (u = ''https://example.com/hello.txt'')"


section \<open>Example values\<close>

text \<open>
  Concrete executors, messages and worlds on which the statements below are evaluated.
  \<open>text_schema\<close> is \<^verbatim>\<open>z.object({ text: z.string() })\<close>.
\<close>

definition text_schema :: "jinput \<Rightarrow> jinput option" where
  "text_schema i =
     (case i ''text'' of
        Some (JStr t) \<Rightarrow> Some [''text'' \<mapsto> JStr t]
      | _ \<Rightarrow> None)"

definition echo :: Executor where
  "echo =
     \<lparr> extension = ''urn:test:echo'',
       input = Some text_schema,
       output_schema = None,
       execute_fn = (\<lambda>i tid cid w.
          (case i ''text'' of Some v \<Rightarrow> (Inr v, w) | None \<Rightarrow> (Inl (ExecutorError ''no text''), w))) \<rparr>"

definition shout :: Executor where
  "shout =
     \<lparr> extension = ''urn:test:shout'',
       input = None,
       output_schema = None,
       execute_fn = (\<lambda>i tid cid w. (Inr (JStr ''SHOUT''), w)) \<rparr>"

definition registry :: "string \<rightharpoonup> Executor" where
  "registry = register shout (register echo Map.empty)"

definition hello :: message where
  "hello =
     \<lparr> messageId = ''m1'',
       role = User,
       parts = [TextPart ''hello'' None],
       contextId = None,
       taskId = None,
       extensions = Some [''urn:test:none'', ''urn:test:shout'', ''urn:test:echo''],
       metadata = Some (MetaObj []),
       referenceTaskIds = None \<rparr>"

definition no_text :: message where
  "no_text =
     \<lparr> messageId = ''m2'',
       role = User,
       parts = [],
       contextId = None,
       taskId = None,
       extensions = Some [''urn:test:echo''],
       metadata = Some (MetaObj []),
       referenceTaskIds = None \<rparr>"

definition memory_world :: world where
  "memory_world = \<lparr> storage = MemoryStorage MemoryStore_empty, sse = SSEState_empty \<rparr>"


text \<open>Sequencing of two calls: the second runs when the first did not throw.\<close>

definition and_then :: "error + 'a \<Rightarrow> ('a \<Rightarrow> error + 'b) \<Rightarrow> error + 'b" where
  "and_then r f = (case r of Inl e \<Rightarrow> Inl e | Inr x \<Rightarrow> f x)"

definition plan_v1 :: artifact where
  "plan_v1 =
     \<lparr> artifactId = ''a1'', name = Some ''plan'', description = None,
       artifact_parts = [DataPart [(''x'', JNum 1)] None],
       artifact_extensions = None, artifact_metadata = Some (MetaObj []) \<rparr>"

definition plan_v2 :: artifact where
  "plan_v2 = plan_v1\<lparr> artifact_parts := [DataPart [(''x'', JNum 2)] None] \<rparr>"

definition completed_task :: task where
  "completed_task =
     \<lparr> task_id = ''t1'', task_contextId = ''c1'',
       status = \<lparr> state = Completed, status_message = None, timestamp = Some ''t0'' \<rparr>,
       artifacts = None, history = None, task_metadata = Some (MetaObj []) \<rparr>"

definition drizzle_db :: DrizzleDb where
  "drizzle_db = Drizzle_saveTask completed_task (DrizzleDb_empty True)"

definition progress :: message where
  "progress =
     \<lparr> messageId = ''m3'', role = Agent, parts = [TextPart ''Processing...'' None],
       contextId = None, taskId = None, extensions = None,
       metadata = Some (MetaObj []), referenceTaskIds = None \<rparr>"

definition working_status :: task_status where
  "working_status = \<lparr> state = Working, status_message = Some progress, timestamp = Some ''t1'' \<rparr>"

definition drizzle_world :: world where
  "drizzle_world = \<lparr> storage = DrizzleStorage drizzle_db, sse = SSEState_empty \<rparr>"





definition memory_world_t1 :: world where
  "memory_world_t1 =
     \<lparr> storage = MemoryStorage (Memory_saveTask completed_task MemoryStore_empty),
       sse = SSEState_empty \<rparr>"


text \<open>
  A sequence of \<^verbatim>\<open>saveMessage\<close> calls for one task, each awaited before the next; for the
  relational adapter every call comes with the row id it draws. \<open>stored_form\<close> is a
  message as the relational adapter rebuilds it from its row: the message's own \<^verbatim>\<open>taskId\<close>
  and \<^verbatim>\<open>referenceTaskIds\<close> are not stored, an empty \<^verbatim>\<open>contextId\<close> reads back as absent, absent
  metadata as \<^verbatim>\<open>{}\<close>. \<open>fresh_uuid\<close>: the drawn row id is not in use yet.
\<close>

fun Memory_saveMessages :: "string \<Rightarrow> message list \<Rightarrow> MemoryStore \<Rightarrow> MemoryStore" where
  "Memory_saveMessages tid [] s = s"
| "Memory_saveMessages tid (m # ms) s = Memory_saveMessages tid ms (Memory_saveMessage tid m s)"

fun Drizzle_saveMessages ::
  "string \<Rightarrow> (message \<times> string) list \<Rightarrow> DrizzleDb \<Rightarrow> error + DrizzleDb" where
  "Drizzle_saveMessages tid [] db = Inr db"
| "Drizzle_saveMessages tid ((m, uuid) # calls) db =
     (case Drizzle_saveMessage tid m uuid db of
        Inl e \<Rightarrow> Inl e
      | Inr db' \<Rightarrow> Drizzle_saveMessages tid calls db')"

definition stored_form :: "message \<Rightarrow> message" where
  "stored_form m =
     m\<lparr> contextId := or_null (contextId m),
        taskId := None,
        metadata := Some (case metadata m of
                            None \<Rightarrow> MetaObj []
                          | Some md \<Rightarrow> if meta_truthy md then md else MetaObj []),
        referenceTaskIds := None \<rparr>"

definition fresh_uuid :: "string \<Rightarrow> DrizzleDb \<Rightarrow> bool" where
  "fresh_uuid uuid db =
     (uuid \<notin> set (map msg_id (db_messages db)) \<and>
      uuid \<notin> set (map tm_messageId (db_taskMessages db)))"

definition addressed :: message where
  "addressed = hello\<lparr> messageId := ''m4'', taskId := Some ''t1'' \<rparr>"

definition hello_again :: message where
  "hello_again = hello\<lparr> parts := [TextPart ''hello again'' None] \<rparr>"


definition file_neither :: jval where
  "file_neither = JObj [(''mimeType'', JStr ''text/plain'')]"

definition file_both :: jval where
  "file_both = JObj [(''bytes'', JStr ''SGVsbG8=''), (''uri'', JStr ''https://example.com/hello.txt''),
                     (''mimeType'', JStr ''text/plain'')]"

definition file_uri :: jval where
  "file_uri = JObj [(''uri'', JStr ''https://example.com/hello.txt'')]"




definition connect :: "string \<Rightarrow> nat \<Rightarrow> SSEState \<Rightarrow> SSEState" where
  "connect tid c s =
     add_connection tid c
       (s\<lparr> controllers := (controllers s)(c := \<lparr> closed = False, enqueued = [] \<rparr>) \<rparr>)"











text \<open>A database whose task-message rows were not inserted in sequence order.\<close>

definition shuffled_db :: DrizzleDb where
  "shuffled_db =
     \<lparr> db_tasks = [taskToDb completed_task],
       db_messages = [messageToDb hello ''t1'' ''ua'', messageToDb addressed ''t1'' ''ub''],
       db_artifacts = [],
       db_taskMessages =
         [\<lparr> tm_taskId = ''t1'', tm_messageId = ''ua'', tm_sequence = 2 \<rparr>,
          \<lparr> tm_taskId = ''t1'', tm_messageId = ''ub'', tm_sequence = 1 \<rparr>],
       foreign_keys = True \<rparr>"


section \<open>Routing\<close>

lemma findExecutor_None: "findExecutor xs reg = None \<longleftrightarrow> (\<forall>x \<in> set xs. reg x = None)"
  by (induction xs) (auto split: option.splits)

lemma findExecutor_Some:
  "findExecutor xs reg = Some e \<longleftrightarrow>
     (\<exists>i < length xs. reg (xs ! i) = Some e \<and> (\<forall>j < i. reg (xs ! j) = None))"
proof (induction xs)
  case Nil
  then show ?case by simp
next
  case (Cons x xs)
  show ?case
  proof (cases "reg x")
    case None
    have "(\<exists>i < length (x # xs). reg ((x # xs) ! i) = Some e \<and> (\<forall>j < i. reg ((x # xs) ! j) = None))
          \<longleftrightarrow> (\<exists>i < length xs. reg (xs ! i) = Some e \<and> (\<forall>j < i. reg (xs ! j) = None))"
      (is "?L \<longleftrightarrow> ?R")
    proof
      assume ?L
      then obtain i where i: "i < length (x # xs)" "reg ((x # xs) ! i) = Some e"
        "\<forall>j < i. reg ((x # xs) ! j) = None" by blast
      with None obtain k where k: "i = Suc k" by (cases i) auto
      have "\<forall>j < k. reg (xs ! j) = None"
      proof (intro allI impI)
        fix j assume "j < k"
        then have "Suc j < i" using k by simp
        with i(3) have "reg ((x # xs) ! Suc j) = None" by blast
        then show "reg (xs ! j) = None" by simp
      qed
      with i k show ?R by auto
    next
      assume ?R
      then obtain i where i: "i < length xs" "reg (xs ! i) = Some e"
        "\<forall>j < i. reg (xs ! j) = None" by blast
      have "\<forall>j < Suc i. reg ((x # xs) ! j) = None"
      proof (intro allI impI)
        fix j assume "j < Suc i"
        then show "reg ((x # xs) ! j) = None" using None i(3) by (cases j) auto
      qed
      with i show ?L by (intro exI[of _ "Suc i"]) auto
    qed
    with None Cons show ?thesis by simp
  next
    case (Some a)
    have "(\<exists>i < length (x # xs). reg ((x # xs) ! i) = Some e \<and> (\<forall>j < i. reg ((x # xs) ! j) = None))
          \<longleftrightarrow> a = e"
    proof
      assume "\<exists>i < length (x # xs). reg ((x # xs) ! i) = Some e \<and> (\<forall>j < i. reg ((x # xs) ! j) = None)"
      then obtain i where i: "reg ((x # xs) ! i) = Some e" "\<forall>j < i. reg ((x # xs) ! j) = None"
        by blast
      show "a = e"
      proof (cases i)
        case 0
        with i Some show ?thesis by simp
      next
        case (Suc k)
        with i(2) have "reg ((x # xs) ! 0) = None" by blast
        with Some show ?thesis by simp
      qed
    next
      assume "a = e"
      with Some show "\<exists>i < length (x # xs). reg ((x # xs) ! i) = Some e \<and> (\<forall>j < i. reg ((x # xs) ! j) = None)"
        by (intro exI[of _ 0]) simp
    qed
    with Some show ?thesis by simp
  qed
qed

lemma upsert_row_key:
  assumes "key new = k" and "\<And>r. key (upd r) = key r"
  shows "k \<in> set (map key (upsert_row (\<lambda>r. key r = k) upd new rows))"
  using assms by (induction rows) auto

lemma task_exists_saveTask: "task_exists (task_id t) (Drizzle_saveTask t db)"
proof -
  have "task_id t \<in> set (map row_id (upsert_row (\<lambda>r. row_id r = task_id t)
          (\<lambda>r. r\<lparr> row_status := row_status (taskToDb t),
                   statusState := statusState (taskToDb t),
                   statusMessage := statusMessage (taskToDb t),
                   statusReason := statusReason (taskToDb t),
                   row_contextId := row_contextId (taskToDb t),
                   row_extensions := row_extensions (taskToDb t),
                   row_metadata := row_metadata (taskToDb t) \<rparr>)
          (taskToDb t) (db_tasks db)))"
    by (rule upsert_row_key) (simp_all add: taskToDb_def)
  then show ?thesis
    by (simp add: task_exists_def Drizzle_saveTask_def Let_def taskToDb_def)
qed

lemma Drizzle_saveMessage_succeeds:
  assumes "fk_ok tid db"
  shows "\<exists>db'. Drizzle_saveMessage tid m uuid db = Inr db'"
proof -
  have "fk_ok tid (db\<lparr> db_messages := ms \<rparr>)" for ms
    using assms by (auto simp add: fk_ok_def task_exists_def split: if_splits)
  then show ?thesis
    using assms by (simp add: Drizzle_saveMessage_def Let_def)
qed

lemma saves_succeed:
  "\<exists>st1 st2. storage_saveTask (submitted_task tid cid m now) st = Inr st1 \<and>
             storage_saveMessage tid m uuid st1 = Inr st2"
proof (cases st)
  case NoStorage
  then show ?thesis by simp
next
  case (MemoryStorage s)
  then show ?thesis by simp
next
  case (DrizzleStorage db)
  have "task_exists tid (Drizzle_saveTask (submitted_task tid cid m now) db)"
    using task_exists_saveTask [of "submitted_task tid cid m now" db]
    by (simp add: submitted_task_def)
  then have "fk_ok tid (Drizzle_saveTask (submitted_task tid cid m now) db)"
    by (simp add: fk_ok_def)
  from Drizzle_saveMessage_succeeds [OF this, of m uuid]
  show ?thesis using DrizzleStorage by auto
qed

lemma execute_dispatch:
  assumes "findExecutor (extensions_or_empty m) executors = Some e"
    and "or_string ot (taskId m) = Some tid" and "tid \<noteq> []"
    and "or_string oc (contextId m) = Some cid" and "cid \<noteq> []"
    and "extractInput m (input e) = Inr i"
  shows "\<exists>w2. execute executors m ot oc now uuid w =
           (case execute_fn e i tid cid w2 of
              (Inl er, w3) \<Rightarrow> (Inl er, w3)
            | (Inr out, w3) \<Rightarrow>
                (case output_schema e of
                   None \<Rightarrow> (Inr out, w3)
                 | Some parse \<Rightarrow>
                     (case parse out of
                        None \<Rightarrow> (Inl ValidationError, w3)
                      | Some v \<Rightarrow> (Inr v, w3))))"
proof -
  obtain st1 st2 where s1: "storage_saveTask (submitted_task tid cid m now) (storage w) = Inr st1"
    and s2: "storage_saveMessage tid m uuid st1 = Inr st2"
    using saves_succeed by blast
  show ?thesis
    using assms s1 s2
    by (intro exI[of _ "w\<lparr> storage := st2 \<rparr>"])
       (simp add: execute_def with_storage_def)
qed

lemma extensions_hello: "extensions_or_empty hello = [''urn:test:none'', ''urn:test:shout'', ''urn:test:echo'']"
  by (simp add: extensions_or_empty_def hello_def)

lemma registry_values: "registry ''urn:test:none'' = None" "registry ''urn:test:shout'' = Some shout"
  "registry ''urn:test:echo'' = Some echo"
  by (simp_all add: registry_def register_def shout_def echo_def)

text \<open>
  Claim C8. \<^verbatim>\<open>execute\<close> scans the message's extensions in list order and dispatches to the
  executor registered for the first URI that has one: \<open>findExecutor\<close> returns \<open>e\<close> exactly
  when \<open>e\<close> is registered for some position of the list and nothing is registered for any
  earlier position, and the executor function \<^verbatim>\<open>execute\<close> then runs is that of \<open>e\<close>. When no
  URI of the list is registered, or the message has no list, \<^verbatim>\<open>execute\<close> fails with the
  no-executor-found error and leaves the world as it was.
\<close>

theorem C8_first_registered_extension_wins:
  "(findExecutor (extensions_or_empty m) executors = Some e \<longleftrightarrow>
      (\<exists>i < length (extensions_or_empty m).
          executors (extensions_or_empty m ! i) = Some e \<and>
          (\<forall>j < i. executors (extensions_or_empty m ! j) = None)))
   \<and> ((\<forall>x \<in> set (extensions_or_empty m). executors x = None) \<longrightarrow>
        execute executors m ot oc now uuid w = (Inl (NoExecutorFound (extensions m)), w))
   \<and> (extensions m = None \<longrightarrow>
        execute executors m ot oc now uuid w = (Inl (NoExecutorFound None), w))
   \<and> (findExecutor (extensions_or_empty m) executors = Some e \<and>
       or_string ot (taskId m) = Some tid \<and> tid \<noteq> [] \<and>
       or_string oc (contextId m) = Some cid \<and> cid \<noteq> [] \<and>
       extractInput m (input e) = Inr i \<longrightarrow>
        (\<exists>w2. execute executors m ot oc now uuid w =
           (case execute_fn e i tid cid w2 of
              (Inl er, w3) \<Rightarrow> (Inl er, w3)
            | (Inr out, w3) \<Rightarrow>
                (case output_schema e of
                   None \<Rightarrow> (Inr out, w3)
                 | Some parse \<Rightarrow>
                     (case parse out of
                        None \<Rightarrow> (Inl ValidationError, w3)
                      | Some v \<Rightarrow> (Inr v, w3))))))"
proof (intro conjI impI)
  show "findExecutor (extensions_or_empty m) executors = Some e \<longleftrightarrow>
      (\<exists>i < length (extensions_or_empty m).
          executors (extensions_or_empty m ! i) = Some e \<and>
          (\<forall>j < i. executors (extensions_or_empty m ! j) = None))"
    by (rule findExecutor_Some)
next
  assume "\<forall>x \<in> set (extensions_or_empty m). executors x = None"
  then have "findExecutor (extensions_or_empty m) executors = None"
    by (simp add: findExecutor_None)
  then show "execute executors m ot oc now uuid w = (Inl (NoExecutorFound (extensions m)), w)"
    by (simp add: execute_def)
next
  assume "extensions m = None"
  then show "execute executors m ot oc now uuid w = (Inl (NoExecutorFound None), w)"
    by (simp add: execute_def extensions_or_empty_def)
next
  assume a: "findExecutor (extensions_or_empty m) executors = Some e \<and>
       or_string ot (taskId m) = Some tid \<and> tid \<noteq> [] \<and>
       or_string oc (contextId m) = Some cid \<and> cid \<noteq> [] \<and>
       extractInput m (input e) = Inr i"
  then show "\<exists>w2. execute executors m ot oc now uuid w =
           (case execute_fn e i tid cid w2 of
              (Inl er, w3) \<Rightarrow> (Inl er, w3)
            | (Inr out, w3) \<Rightarrow>
                (case output_schema e of
                   None \<Rightarrow> (Inr out, w3)
                 | Some parse \<Rightarrow>
                     (case parse out of
                        None \<Rightarrow> (Inl ValidationError, w3)
                      | Some v \<Rightarrow> (Inr v, w3))))"
    using execute_dispatch [of m executors e ot tid oc cid i now uuid w] by blast
qed

theorem C8_first_registered_extension_wins_witness:
  "findExecutor (extensions_or_empty hello) registry = Some shout
   \<and> fst (execute Map.empty hello (Some ''t1'') (Some ''c1'') ''now'' ''u1'' memory_world)
       = Inl (NoExecutorFound (extensions hello))
   \<and> extensions (hello\<lparr> extensions := None \<rparr>) = None
   \<and> fst (execute registry (hello\<lparr> extensions := None \<rparr>) (Some ''t1'') (Some ''c1'') ''now'' ''u1'' memory_world)
       = Inl (NoExecutorFound None)
   \<and> fst (execute registry hello (Some ''t1'') (Some ''c1'') ''now'' ''u1'' memory_world)
       = Inr (JStr ''SHOUT'')"
proof -
  have f: "findExecutor (extensions_or_empty hello) registry = Some shout"
    by (simp add: extensions_hello registry_values)
  have n: "\<forall>x \<in> set (extensions_or_empty hello). Map.empty x = (None :: Executor option)"
    by simp
  have h: "or_string (Some ''t1'') (taskId hello) = Some ''t1''"
    "or_string (Some ''c1'') (contextId hello) = Some ''c1''"
    "extractInput hello (input shout) = Inr (extracted hello)"
    by (simp_all add: or_string_def extractInput_def shout_def)
  note t1 = C8_first_registered_extension_wins
    [of hello registry shout "Some ''t1''" "Some ''c1''" "''now''" "''u1''" memory_world
        "''t1''" "''c1''" "extracted hello"]
  note t2 = C8_first_registered_extension_wins
    [of hello Map.empty shout "Some ''t1''" "Some ''c1''" "''now''" "''u1''" memory_world
        "''t1''" "''c1''" "extracted hello"]
  note t3 = C8_first_registered_extension_wins
    [of "hello\<lparr> extensions := None \<rparr>" registry shout "Some ''t1''" "Some ''c1''" "''now''" "''u1''"
        memory_world "''t1''" "''c1''" "extracted hello"]
  from t1 f h obtain w2 where
    "execute registry hello (Some ''t1'') (Some ''c1'') ''now'' ''u1'' memory_world =
       (case execute_fn shout (extracted hello) ''t1'' ''c1'' w2 of
              (Inl er, w3) \<Rightarrow> (Inl er, w3)
            | (Inr out, w3) \<Rightarrow>
                (case output_schema shout of
                   None \<Rightarrow> (Inr out, w3)
                 | Some parse \<Rightarrow>
                     (case parse out of
                        None \<Rightarrow> (Inl ValidationError, w3)
                      | Some v \<Rightarrow> (Inr v, w3))))"
    by auto
  then have r1: "fst (execute registry hello (Some ''t1'') (Some ''c1'') ''now'' ''u1'' memory_world)
       = Inr (JStr ''SHOUT'')"
    by (simp add: shout_def)
  from t2 n have r2: "fst (execute Map.empty hello (Some ''t1'') (Some ''c1'') ''now'' ''u1'' memory_world)
       = Inl (NoExecutorFound (extensions hello))"
    by simp
  from t3 have r3: "fst (execute registry (hello\<lparr> extensions := None \<rparr>) (Some ''t1'') (Some ''c1'') ''now'' ''u1'' memory_world)
       = Inl (NoExecutorFound None)"
    by simp
  from f r1 r2 r3 show ?thesis by simp
qed

section \<open>Artifacts\<close>

lemma drizzle_db_eq:
  "drizzle_db = \<lparr> db_tasks = [taskToDb completed_task], db_messages = [], db_artifacts = [],
       db_taskMessages = [], foreign_keys = True \<rparr>"
  by (simp add: drizzle_db_def Drizzle_saveTask_def DrizzleDb_empty_def Let_def)

lemma row_id_completed: "row_id (taskToDb completed_task) = ''t1''"
  by (simp add: taskToDb_def completed_task_def)

lemma map_of_Map_set: "map_of (Map_set k v kvs) = (map_of kvs)(k \<mapsto> v)"
  by (induction kvs) (auto simp: fun_eq_iff)

lemma keys_Map_set: "fst ` set (Map_set k v kvs) = insert k (fst ` set kvs)"
  by (induction kvs) (auto split: if_splits, force+)

lemma distinct_Map_set: "distinct (map fst kvs) \<Longrightarrow> distinct (map fst (Map_set k v kvs))"
  by (induction kvs) (auto simp: keys_Map_set)

lemma distinct_key_once:
  "distinct (map fst kvs) \<Longrightarrow> k \<in> fst ` set kvs \<Longrightarrow> length (filter (\<lambda>p. fst p = k) kvs) = 1"
proof (induction kvs)
  case Nil
  then show ?case by simp
next
  case (Cons p kvs)
  show ?case
  proof (cases "fst p = k")
    case True
    with Cons.prems have "k \<notin> fst ` set kvs" by auto
    then have "filter (\<lambda>p. fst p = k) kvs = []" by (auto simp: filter_empty_conv)
    with True show ?thesis by simp
  next
    case False
    with Cons show ?thesis by auto
  qed
qed

lemma mem_artifacts_updateArtifact:
  "mem_artifacts (Memory_updateArtifact a s) = Map_set (artifactId (the_artifact a)) a (mem_artifacts s)"
  by (simp add: Memory_updateArtifact_def Let_def split: option.splits)

lemma Memory_updateArtifact_upserts:
  assumes "distinct (map fst (mem_artifacts s))"
    and "artifactId (the_artifact a2) = artifactId (the_artifact a1)"
  shows "Memory_getArtifact (artifactId (the_artifact a1))
           (Memory_updateArtifact a2 (Memory_updateArtifact a1 s)) = Some (the_artifact a2)
       \<and> length (filter (\<lambda>p. fst p = artifactId (the_artifact a1))
            (mem_artifacts (Memory_updateArtifact a2 (Memory_updateArtifact a1 s)))) = 1"
proof -
  let ?k = "artifactId (the_artifact a1)"
  let ?kvs = "mem_artifacts (Memory_updateArtifact a2 (Memory_updateArtifact a1 s))"
  have e: "?kvs = Map_set ?k a2 (Map_set ?k a1 (mem_artifacts s))"
    using assms(2) by (simp add: mem_artifacts_updateArtifact)
  have d: "distinct (map fst ?kvs)"
    unfolding e using assms(1) by (intro distinct_Map_set)
  have k: "?k \<in> fst ` set ?kvs"
    unfolding e by (simp only: keys_Map_set) simp
  have "map_of ?kvs ?k = Some a2"
    unfolding e by (simp add: map_of_Map_set)
  then have "Memory_getArtifact ?k (Memory_updateArtifact a2 (Memory_updateArtifact a1 s))
      = Some (the_artifact a2)"
    by (simp add: Memory_getArtifact_def)
  with distinct_key_once [OF d k] show ?thesis by simp
qed

lemma Memory_updateArtifact_task_list:
  assumes "tasks s (owner_taskId a) = Some t"
  shows "map_option artifacts (Memory_getTask (owner_taskId a) (Memory_updateArtifact a s))
       = Some (Some ((case artifacts t of None \<Rightarrow> [] | Some xs \<Rightarrow> xs) @ [the_artifact a]))"
  using assms by (simp add: Memory_updateArtifact_def Memory_getTask_def Let_def)

lemma Drizzle_updateArtifact_fresh:
  assumes "uuid \<notin> set (map art_id (db_artifacts db))" and "fk_ok (owner_taskId a) db"
    and "artifact_metadata (the_artifact a) \<noteq> None"
  shows "Drizzle_updateArtifact a uuid db
       = Inr (db\<lparr> db_artifacts := db_artifacts db @ [artifactToDb a uuid] \<rparr>)"
proof -
  have "upsert_row (\<lambda>r. art_id r = uuid) upd new rows = rows @ [new]"
    if "uuid \<notin> set (map art_id rows)" for upd new and rows :: "DbArtifactRow list"
    using that by (induction rows) auto
  with assms show ?thesis
    by (simp add: Drizzle_updateArtifact_def Let_def artifactToDb_def)
qed

text \<open>
  Claim C1. Calling \<^verbatim>\<open>updateArtifact\<close> twice with the same \<^verbatim>\<open>artifactId\<close> and task but
  different parts should leave one stored artifact for that id, carrying the second
  call's parts. The in-memory adapter does so for its artifact store
  (\<open>Memory_updateArtifact_upserts\<close>). The relational adapter does not: its conflict target
  is the row id, which \<^verbatim>\<open>artifactToDb\<close> draws afresh on every call, so the second call
  inserts a second row. Evaluated on a database holding task \<^verbatim>\<open>t1\<close>, with two distinct
  row ids: \<^verbatim>\<open>getTaskArtifacts\<close> returns two artifacts for \<^verbatim>\<open>a1\<close>, and \<^verbatim>\<open>getArtifact\<close> the one of
  the first call.
\<close>

theorem C1_drizzle_updateArtifact_twice:
  "map_sum id (\<lambda>db. (map artifact_parts (Drizzle_getTaskArtifacts ''t1'' db),
                      map_option artifact_parts (Drizzle_getArtifact ''a1'' db)))
     (and_then (Drizzle_updateArtifact \<lparr> owner_taskId = ''t1'', the_artifact = plan_v1 \<rparr> ''u1'' drizzle_db)
        (Drizzle_updateArtifact \<lparr> owner_taskId = ''t1'', the_artifact = plan_v2 \<rparr> ''u2''))
   = Inr ([[DataPart [(''x'', JNum 1)] None], [DataPart [(''x'', JNum 2)] None]],
          Some [DataPart [(''x'', JNum 1)] None])"
  by (simp add: drizzle_db_eq and_then_def Drizzle_updateArtifact_def artifactToDb_def Let_def
      fk_ok_def task_exists_def row_id_completed plan_v1_def plan_v2_def
      Drizzle_getTaskArtifacts_def Drizzle_getArtifact_def dbToArtifact_def)


section \<open>Missing tasks\<close>

lemma Memory_updateTaskStatus_missing:
  "tasks s tid = None \<Longrightarrow> Memory_updateTaskStatus tid st s = Inl (TaskNotFound tid)"
  by (simp add: Memory_updateTaskStatus_def)

lemma getTask_missing:
  "storage_getTask tid (storage w) = None \<Longrightarrow> getTask tid w = Inl (TaskNotFound tid)"
  by (simp add: getTask_def)

lemma cancelTask_Memory_missing:
  assumes "storage w = MemoryStorage s" and "tasks s tid = None"
  shows "fst (cancelTask sender tid cid m now1 now2 w) = Inl (TaskNotFound tid)
       \<and> storage (snd (cancelTask sender tid cid m now1 now2 w)) = storage w"
  using assms
  by (cases sender) (simp_all add: cancelTask_def with_storage_def Memory_updateTaskStatus_def)

lemma Drizzle_updateTaskStatus_missing:
  assumes "\<not> task_exists tid db"
  shows "Drizzle_updateTaskStatus tid st db = Inr db"
proof -
  have "map (\<lambda>r. if row_id r = tid
                      then r\<lparr> row_status := Stringify st,
                              statusState := state st,
                              statusMessage := map_option Stringify (status_message st),
                              statusReason := None \<rparr>
                      else r) (db_tasks db) = db_tasks db"
    using assms by (intro map_idI) (auto simp: task_exists_def)
  then show ?thesis by (simp add: Drizzle_updateTaskStatus_def)
qed

text \<open>
  Claim C3. \<^verbatim>\<open>updateTaskStatus\<close>, the context's \<^verbatim>\<open>getTask\<close> and \<^verbatim>\<open>cancelTask\<close> should fail with a
  task-not-found condition for a task id with no stored task. \<^verbatim>\<open>getTask\<close> does
  (\<open>getTask_missing\<close>), and so do the other two over the in-memory adapter
  (\<open>Memory_updateTaskStatus_missing\<close>, \<open>cancelTask_Memory_missing\<close>). Over the relational
  adapter \<^verbatim>\<open>updateTaskStatus\<close> is an \<^verbatim>\<open>UPDATE ... WHERE id = taskId\<close> that matches no row
  and returns normally: evaluated on an empty database, it and \<^verbatim>\<open>cancelTask\<close> succeed and
  leave the database as it was.
\<close>

theorem C3_drizzle_missing_task:
  "Drizzle_updateTaskStatus ''missing'' working_status (DrizzleDb_empty True)
     = Inr (DrizzleDb_empty True)
   \<and> cancelTask defaultEventSender ''missing'' ''c1'' None ''n1'' ''n2''
       \<lparr> storage = DrizzleStorage (DrizzleDb_empty True), sse = SSEState_empty \<rparr>
     = (Inr (), \<lparr> storage = DrizzleStorage (DrizzleDb_empty True), sse = SSEState_empty \<rparr>)"
  by (simp add: Drizzle_updateTaskStatus_def DrizzleDb_empty_def cancelTask_def with_storage_def)


section \<open>Status updates and the message history\<close>

lemma Memory_updateTaskStatus_appends:
  assumes "tasks s tid = Some t" and "status_message st = Some m"
  shows "\<exists>s'. Memory_updateTaskStatus tid st s = Inr s'
       \<and> map_option status (Memory_getTask tid s') = Some st
       \<and> map_option history (Memory_getTask tid s')
           = Some (Some ((case history t of None \<Rightarrow> [] | Some ms \<Rightarrow> ms) @ [m]))
       \<and> Memory_getMessages tid s' = Memory_getMessages tid s @ [m]"
  using assms
  by (simp add: Memory_updateTaskStatus_def Memory_saveMessage_def Memory_getTask_def
      Memory_getMessages_def Let_def split: option.splits)

lemma Drizzle_updateTaskStatus_messages:
  "Drizzle_updateTaskStatus tid st db = Inr db' \<Longrightarrow>
   Drizzle_getMessages tid' db' = Drizzle_getMessages tid' db"
  by (auto simp add: Drizzle_updateTaskStatus_def Drizzle_getMessages_def joined_rows_def)

text \<open>
  Claim C4. \<^verbatim>\<open>updateTaskStatus\<close> on an existing task, with a status that carries a message,
  should replace the status and append the message to the task's message history. The
  in-memory adapter does both (\<open>Memory_updateTaskStatus_appends\<close>). The relational adapter
  writes the status columns only and never touches the message tables
  (\<open>Drizzle_updateTaskStatus_messages\<close>): evaluated on a database holding task \<^verbatim>\<open>t1\<close> and no
  message, the status read back is the new one and the message history is still empty.
\<close>

theorem C4_drizzle_status_message_not_in_history:
  "map_sum id (\<lambda>db. (map_option status (Drizzle_getTask ''t1'' db),
                      Drizzle_getMessages ''t1'' db,
                      map_option (fst \<circ> snd) (Drizzle_getTaskWithHistory ''t1'' db)))
     (Drizzle_updateTaskStatus ''t1'' working_status drizzle_db)
   = Inr (Some \<lparr> state = Working, status_message = Some progress, timestamp = None \<rparr>, [], Some [])"
  by (simp add: drizzle_db_eq Drizzle_updateTaskStatus_def row_id_completed working_status_def
      Drizzle_getTask_def dbToTask_def Drizzle_getMessages_def joined_rows_def
      Drizzle_getTaskWithHistory_def)

section \<open>Event delivery to observers\<close>
























lemma createSSEHandler_sse:
  assumes "tid \<noteq> []"
  shows "sse (snd (createSSEHandler SSEEventSender (Some tid) (Some cid) c uc um nh n w))
       = sendSSEEvent
           (TaskStatusUpdateEvent tid (if cid = [] then uc else cid)
              \<lparr> state = Working, status_message = Some (heartbeat um), timestamp = Some nh \<rparr> False)
           (connect tid c (sse w))"
  using assms
  by (auto simp add: createSSEHandler_def updateStatus_def with_storage_def connect_def Let_def
      or_string_def split: sum.splits)







section \<open>Subscribing is a write\<close>

lemma drizzle_world_eq:
  "drizzle_world = \<lparr> storage = DrizzleStorage \<lparr> db_tasks = [taskToDb completed_task],
       db_messages = [], db_artifacts = [], db_taskMessages = [], foreign_keys = True \<rparr>,
     sse = SSEState_empty \<rparr>"
  by (simp add: drizzle_world_def drizzle_db_eq)

lemma createSSEHandler_Memory:
  assumes "storage w = MemoryStorage s" and "tasks s tid = Some t" and "tid \<noteq> []"
  shows "\<exists>s'. storage (snd (createSSEHandler sender (Some tid) q c uc um nh n w)) = MemoryStorage s'
       \<and> map_option (state \<circ> status) (Memory_getTask tid s') = Some Working
       \<and> map_option (status_message \<circ> status) (Memory_getTask tid s') = Some (Some (heartbeat um))
       \<and> map_option history (Memory_getTask tid s')
           = Some (Some ((case history t of None \<Rightarrow> [] | Some ms \<Rightarrow> ms) @ [heartbeat um]))
       \<and> Memory_getMessages tid s' = Memory_getMessages tid s @ [heartbeat um]"
  using assms
  by (cases sender)
     (simp_all add: createSSEHandler_def updateStatus_def with_storage_def Let_def
        Memory_updateTaskStatus_def Memory_saveMessage_def Memory_getTask_def
        Memory_getMessages_def split: option.splits)

lemma createSSEHandler_memory_world_t1:
  "\<exists>s'. storage (snd (createSSEHandler SSEEventSender (Some ''t1'') None 0
                        ''uc'' ''um'' ''nh'' ''n'' memory_world_t1)) = MemoryStorage s'
       \<and> map_option (state \<circ> status) (Memory_getTask ''t1'' s') = Some Working
       \<and> Memory_getMessages ''t1'' s' = [heartbeat ''um'']"
proof -
  have "storage memory_world_t1 = MemoryStorage (Memory_saveTask completed_task MemoryStore_empty)"
    "tasks (Memory_saveTask completed_task MemoryStore_empty) ''t1'' = Some completed_task"
    "Memory_getMessages ''t1'' (Memory_saveTask completed_task MemoryStore_empty) = []"
    by (simp_all add: memory_world_t1_def Memory_saveTask_def completed_task_def
        MemoryStore_empty_def Memory_getMessages_def)
  from createSSEHandler_Memory [OF this(1) this(2), of SSEEventSender None 0 "''uc''" "''um''" "''nh''" "''n''"]
    this(3)
  show ?thesis by auto
qed

lemma find_map_update:
  assumes "\<And>r. key (upd r) = key r"
  shows "find (\<lambda>r. key r = k) (map (\<lambda>r. if key r = k then upd r else r) rows)
       = map_option upd (find (\<lambda>r. key r = k) rows)"
  using assms by (induction rows) auto

lemma Drizzle_updateTaskStatus_getTask:
  "Drizzle_updateTaskStatus tid st db = Inr db' \<Longrightarrow>
   map_option status (Drizzle_getTask tid db')
     = map_option (\<lambda>t. \<lparr> state = state st, status_message = status_message st, timestamp = None \<rparr>)
         (Drizzle_getTask tid db)"
proof -
  assume a: "Drizzle_updateTaskStatus tid st db = Inr db'"
  let ?upd = "\<lambda>r. r\<lparr> row_status := Stringify st,
                              statusState := state st,
                              statusMessage := map_option Stringify (status_message st),
                              statusReason := None \<rparr>"
  have "find (\<lambda>r. row_id r = tid) (map (\<lambda>r. if row_id r = tid then ?upd r else r) (db_tasks db))
       = map_option ?upd (find (\<lambda>r. row_id r = tid) (db_tasks db))"
    by (rule find_map_update) simp
  with a show ?thesis
    by (auto simp add: Drizzle_updateTaskStatus_def Drizzle_getTask_def dbToTask_def
        option.map_comp comp_def option.map_ident)
qed

text \<open>
  Claim C10. Opening the in-process subscription endpoint for a task calls
  \<^verbatim>\<open>updateStatus\<close> with a synthetic \<^verbatim>\<open>working\<close> status that carries the agent message
  \<^verbatim>\<open>SSE connection established\<close>; this should overwrite the persisted state with \<^verbatim>\<open>working\<close>
  and append the heartbeat message to the stored history. Over the in-memory adapter it
  does both, whatever the task's state was (\<open>createSSEHandler_Memory\<close>). Over the relational
  adapter, evaluated on a database holding the completed task \<^verbatim>\<open>t1\<close> and no message: the
  state read back is \<^verbatim>\<open>working\<close> and the status message is the heartbeat, but the message
  history is still empty, since that adapter's \<^verbatim>\<open>updateTaskStatus\<close> never stores the message.
\<close>

theorem C10_drizzle_heartbeat_not_in_history:
  "(let w = snd (createSSEHandler SSEEventSender (Some ''t1'') (Some ''c1'') 0
                  ''uc'' ''um'' ''nh'' ''n'' drizzle_world)
    in (map_option (state \<circ> status) (storage_getTask ''t1'' (storage w)),
        map_option (status_message \<circ> status) (storage_getTask ''t1'' (storage w)),
        storage_getMessages ''t1'' (storage w)))
   = (Some Working, Some (Some (heartbeat ''um'')), [])"
  by (simp add: drizzle_world_eq createSSEHandler_def or_string_def add_connection_def
      SSEState_empty_def updateStatus_def sendSSEEvent_def with_storage_def
      Drizzle_updateTaskStatus_def row_id_completed Drizzle_getTask_def dbToTask_def
      Drizzle_getMessages_def joined_rows_def Let_def)

section \<open>Message order\<close>

lemma dbToMessage_messageToDb: "dbToMessage (messageToDb m tid uuid) = stored_form m"
  by (cases "metadata m")
     (simp_all add: dbToMessage_def messageToDb_def stored_form_def or_null_def
        option.map_comp comp_def option.map_ident)

lemma Memory_getMessages_saveMessage:
  "Memory_getMessages tid (Memory_saveMessage tid m s) = Memory_getMessages tid s @ [m]"
  by (simp add: Memory_getMessages_def Memory_saveMessage_def Let_def)

lemma Memory_getMessages_saveMessages:
  "Memory_getMessages tid (Memory_saveMessages tid ms s) = Memory_getMessages tid s @ ms"
  by (induction ms arbitrary: s) (simp_all add: Memory_getMessages_saveMessage)

lemma upsert_row_fresh:
  "k \<notin> set (map key rows) \<Longrightarrow> upsert_row (\<lambda>r. key r = k) upd new rows = rows @ [new]"
  by (induction rows) auto

lemma Drizzle_saveMessage_fresh:
  assumes "fresh_uuid uuid db" and "fk_ok tid db"
  shows "Drizzle_saveMessage tid m uuid db =
           Inr (db\<lparr> db_messages := db_messages db @ [messageToDb m tid uuid],
                    db_taskMessages := db_taskMessages db @
                      [\<lparr> tm_taskId = tid, tm_messageId = uuid,
                         tm_sequence = nextSequence tid db \<rparr>] \<rparr>)"
proof -
  have u: "upsert_row (\<lambda>r. msg_id r = uuid) upd (messageToDb m tid uuid) (db_messages db)
        = db_messages db @ [messageToDb m tid uuid]" for upd
    using assms(1) by (intro upsert_row_fresh) (simp add: fresh_uuid_def)
  have i: "msg_id (messageToDb m tid uuid) = uuid" by (simp add: messageToDb_def)
  have n: "(tid, uuid) \<notin> set (map (\<lambda>r. (tm_taskId r, tm_messageId r)) (db_taskMessages db))"
    using assms(1) by (auto simp: fresh_uuid_def)
  have c: "uuid \<notin> set (map msg_id (db_messages db))"
    using assms(1) by (simp add: fresh_uuid_def)
  have f: "fk_ok tid (db\<lparr> db_messages := ms \<rparr>)" for ms
    using assms(2) by (auto simp add: fk_ok_def task_exists_def split: if_splits)
  have s: "nextSequence tid (db\<lparr> db_messages := ms \<rparr>) = nextSequence tid db" for ms
    by (simp add: nextSequence_def)
  show ?thesis
    unfolding Drizzle_saveMessage_def Let_def i u
    using n c f s assms(2) by simp
qed

lemma fold_max_upper: "x \<in> set (q # qs) \<Longrightarrow> x \<le> fold max qs (q :: int)"
  using Max.set_eq_fold [of q qs] Max_ge [of "set (q # qs)" x] by simp

lemma below_nextSequence:
  assumes "r \<in> set (db_taskMessages db)" and "tm_taskId r = tid"
  shows "tm_sequence r < nextSequence tid db"
proof -
  let ?qs = "map tm_sequence (filter (\<lambda>r. tm_taskId r = tid) (db_taskMessages db))"
  have m: "tm_sequence r \<in> set ?qs" using assms by auto
  then obtain q qs where e: "?qs = q # qs" by (cases ?qs) auto
  with m have "tm_sequence r \<le> fold max qs q" using fold_max_upper [of "tm_sequence r" q qs] by simp
  then show ?thesis by (simp add: nextSequence_def e)
qed

lemma nextSequence_is_max_plus_one:
  "nextSequence tid db =
     (let qs = map tm_sequence (filter (\<lambda>r. tm_taskId r = tid) (db_taskMessages db))
      in if qs = [] then 1 else Max (set qs) + 1)"
proof (cases "map tm_sequence (filter (\<lambda>r. tm_taskId r = tid) (db_taskMessages db))")
  case Nil
  then show ?thesis by (simp add: nextSequence_def)
next
  case (Cons q qs)
  then show ?thesis using Max.set_eq_fold [of q qs] by (simp add: nextSequence_def)
qed

lemma insort_key_before_last:
  "f a \<le> f x \<Longrightarrow> insort_key f a (zs @ [x]) = insort_key f a zs @ [x]"
  by (induction zs) auto

lemma sort_key_snoc:
  assumes "\<forall>y \<in> set xs. f y \<le> f x"
  shows "sort_key f (xs @ [x]) = sort_key f xs @ [x]"
proof -
  have "foldr (insort_key f) xs [x] = foldr (insort_key f) xs [] @ [x]"
    using assms by (induction xs) (simp_all add: insort_key_before_last)
  then show ?thesis by (simp add: sort_key_def)
qed

lemma joined_rows_snoc:
  assumes "fresh_uuid uuid db" and "msg_id new = uuid"
  shows "joined_rows tid
           (db\<lparr> db_messages := db_messages db @ [new],
                 db_taskMessages := db_taskMessages db @
                   [\<lparr> tm_taskId = tid, tm_messageId = uuid, tm_sequence = q \<rparr>] \<rparr>)
         = joined_rows tid db @ [(new, \<lparr> tm_taskId = tid, tm_messageId = uuid, tm_sequence = q \<rparr>)]"
proof -
  let ?tm = "\<lparr> tm_taskId = tid, tm_messageId = uuid, tm_sequence = q \<rparr>"
  define F where "F = (\<lambda>m :: DbMessageRow. map (Pair m)
      (filter (\<lambda>tm. msg_id m = tm_messageId tm \<and> tm_taskId tm = tid) (db_taskMessages db @ [?tm])))"
  define F0 where "F0 = (\<lambda>m :: DbMessageRow. map (Pair m)
      (filter (\<lambda>tm. msg_id m = tm_messageId tm \<and> tm_taskId tm = tid) (db_taskMessages db)))"
  have 1: "joined_rows tid
           (db\<lparr> db_messages := db_messages db @ [new],
                 db_taskMessages := db_taskMessages db @ [?tm] \<rparr>)
         = concat (map F (db_messages db @ [new]))"
    by (simp add: joined_rows_def F_def)
  have 2: "map F (db_messages db) = map F0 (db_messages db)"
    using assms(1) by (intro map_cong) (auto simp: F_def F0_def fresh_uuid_def)
  have "filter (\<lambda>tm. msg_id new = tm_messageId tm \<and> tm_taskId tm = tid) (db_taskMessages db) = []"
    using assms by (auto simp: fresh_uuid_def filter_empty_conv)
  then have 3: "F new = [(new, ?tm)]"
    using assms(2) by (simp add: F_def)
  have 4: "joined_rows tid db = concat (map F0 (db_messages db))"
    by (simp add: joined_rows_def F0_def)
  show ?thesis by (simp add: 1 2 3 4)
qed

lemma joined_rows_task:
  "p \<in> set (joined_rows tid db) \<Longrightarrow> snd p \<in> set (db_taskMessages db) \<and> tm_taskId (snd p) = tid"
  by (auto simp: joined_rows_def)

lemma Drizzle_getMessages_saveMessage:
  assumes "fresh_uuid uuid db" and "fk_ok tid db"
  shows "\<exists>db'. Drizzle_saveMessage tid m uuid db = Inr db'
       \<and> Drizzle_getMessages tid db' = Drizzle_getMessages tid db @ [stored_form m]"
proof -
  let ?tm = "\<lparr> tm_taskId = tid, tm_messageId = uuid, tm_sequence = nextSequence tid db \<rparr>"
  let ?new = "messageToDb m tid uuid"
  let ?db' = "db\<lparr> db_messages := db_messages db @ [?new],
                    db_taskMessages := db_taskMessages db @ [?tm] \<rparr>"
  have j: "joined_rows tid ?db' = joined_rows tid db @ [(?new, ?tm)]"
    by (rule joined_rows_snoc [OF assms(1)]) (simp add: messageToDb_def)
  have "\<forall>p \<in> set (joined_rows tid db).
          (tm_sequence \<circ> snd) p \<le> (tm_sequence \<circ> snd) (?new, ?tm)"
    using joined_rows_task [of _ tid db] below_nextSequence [of _ db tid]
    by (fastforce simp: less_imp_le)
  then have "sort_key (tm_sequence \<circ> snd) (joined_rows tid db @ [(?new, ?tm)])
       = sort_key (tm_sequence \<circ> snd) (joined_rows tid db) @ [(?new, ?tm)]"
    by (rule sort_key_snoc)
  with j have "Drizzle_getMessages tid ?db' = Drizzle_getMessages tid db @ [stored_form m]"
    by (simp add: Drizzle_getMessages_def dbToMessage_messageToDb)
  with Drizzle_saveMessage_fresh [OF assms, of m] show ?thesis by simp
qed

lemma fresh_after_save:
  assumes "fresh_uuid u db" and "u \<noteq> uuid"
  shows "fresh_uuid u (db\<lparr> db_messages := db_messages db @ [messageToDb m tid uuid],
                    db_taskMessages := db_taskMessages db @
                      [\<lparr> tm_taskId = tid, tm_messageId = uuid, tm_sequence = q \<rparr>] \<rparr>)"
  using assms by (simp add: fresh_uuid_def messageToDb_def)

lemma Drizzle_getMessages_saveMessages:
  assumes "distinct (map snd calls)" and "list_all (\<lambda>c. fresh_uuid (snd c) db) calls"
    and "fk_ok tid db"
  shows "\<exists>db'. Drizzle_saveMessages tid calls db = Inr db'
       \<and> Drizzle_getMessages tid db' = Drizzle_getMessages tid db @ map (stored_form \<circ> fst) calls"
  using assms
proof (induction calls arbitrary: db)
  case Nil
  then show ?case by simp
next
  case (Cons c calls)
  obtain m uuid where c: "c = (m, uuid)" by (cases c)
  let ?db1 = "db\<lparr> db_messages := db_messages db @ [messageToDb m tid uuid],
                    db_taskMessages := db_taskMessages db @
                      [\<lparr> tm_taskId = tid, tm_messageId = uuid,
                         tm_sequence = nextSequence tid db \<rparr>] \<rparr>"
  from Cons.prems c have f: "fresh_uuid uuid db" by simp
  have s: "Drizzle_saveMessage tid m uuid db = Inr ?db1"
    using Drizzle_saveMessage_fresh [OF f Cons.prems(3)] .
  from Drizzle_getMessages_saveMessage [OF f Cons.prems(3), of m] s
  have g: "Drizzle_getMessages tid ?db1 = Drizzle_getMessages tid db @ [stored_form m]" by simp
  have d: "distinct (map snd calls)" using Cons.prems(1) by simp
  have fr: "list_all (\<lambda>c. fresh_uuid (snd c) ?db1) calls"
    unfolding list_all_iff
  proof
    fix x assume x: "x \<in> set calls"
    with Cons.prems(1) c have "snd x \<noteq> uuid" by force
    moreover from x Cons.prems(2) have "fresh_uuid (snd x) db" by (simp add: list_all_iff)
    ultimately show "fresh_uuid (snd x) ?db1" by (rule fresh_after_save [rotated])
  qed
  have fk: "fk_ok tid ?db1"
    using Cons.prems(3) by (auto simp add: fk_ok_def task_exists_def split: if_splits)
  from Cons.IH [OF d fr fk] obtain db' where
    "Drizzle_saveMessages tid calls ?db1 = Inr db'"
    "Drizzle_getMessages tid db' = Drizzle_getMessages tid ?db1 @ map (stored_form \<circ> fst) calls"
    by blast
  with s g c show ?case by simp
qed

lemma fresh_in_drizzle_db: "fresh_uuid u drizzle_db" "fk_ok ''t1'' drizzle_db"
  by (simp_all add: fresh_uuid_def fk_ok_def task_exists_def drizzle_db_eq row_id_completed)

lemma joined_rows_iff:
  "(r, tm) \<in> set (joined_rows tid db) \<longleftrightarrow>
     r \<in> set (db_messages db) \<and> tm \<in> set (db_taskMessages db)
     \<and> msg_id r = tm_messageId tm \<and> tm_taskId tm = tid"
  by (auto simp add: joined_rows_def)

lemma Drizzle_getMessages_ordered:
  "\<exists>rs. Drizzle_getMessages tid db = map (dbToMessage \<circ> fst) rs
       \<and> sorted (map (tm_sequence \<circ> snd) rs)
       \<and> (\<forall>q. filter (\<lambda>p. (tm_sequence \<circ> snd) p = q) rs
                = filter (\<lambda>p. (tm_sequence \<circ> snd) p = q) (joined_rows tid db))"
  by (intro exI [of _ "sort_key (tm_sequence \<circ> snd) (joined_rows tid db)"])
     (simp only: Drizzle_getMessages_def sorted_sort_key sort_key_stable simp_thms)

lemma msg_id_messageToDb: "msg_id (messageToDb m tid uuid) = uuid"
  by (simp add: messageToDb_def)

lemma shuffled_read:
  "Drizzle_getMessages ''t1'' shuffled_db = [stored_form addressed, stored_form hello]"
  by (simp add: Drizzle_getMessages_def joined_rows_def shuffled_db_def
      dbToMessage_messageToDb msg_id_messageToDb)

text \<open>
  Claim C7, as the code has it. \<^verbatim>\<open>getMessages\<close> returns one entry for every \<^verbatim>\<open>saveMessage\<close>
  call, in the order of the calls, after what the task held before; no clock is read on
  the way. In the in-memory adapter the entries are the saved messages themselves. In the
  relational adapter, when the task row exists or foreign keys are not enforced and each
  drawn row id is new, the entries are the saved messages in their stored form, and every
  call is given the sequence number \<open>nextSequence\<close>, which is the task's current maximum
  plus one (1 for a task without messages). \<^verbatim>\<open>getMessages\<close> of the relational adapter
  orders by that sequence, whatever the order of the rows in the tables: it reads the
  message rows joined to the task's task-message rows, in ascending sequence, rows of
  equal sequence in table order.
\<close>

theorem C7_messages_in_call_order:
  "Memory_getMessages tid (Memory_saveMessages tid ms s) = Memory_getMessages tid s @ ms
   \<and> (distinct (map snd calls) \<and> list_all (\<lambda>c. fresh_uuid (snd c) db) calls \<and> fk_ok tid db \<longrightarrow>
        (\<exists>db'. Drizzle_saveMessages tid calls db = Inr db' \<and>
               Drizzle_getMessages tid db'
                 = Drizzle_getMessages tid db @ map (stored_form \<circ> fst) calls))
   \<and> (fresh_uuid uuid db \<and> fk_ok tid db \<longrightarrow>
        Drizzle_saveMessage tid m uuid db =
           Inr (db\<lparr> db_messages := db_messages db @ [messageToDb m tid uuid],
                    db_taskMessages := db_taskMessages db @
                      [\<lparr> tm_taskId = tid, tm_messageId = uuid,
                         tm_sequence = nextSequence tid db \<rparr>] \<rparr>))
   \<and> nextSequence tid db =
        (let qs = map tm_sequence (filter (\<lambda>r. tm_taskId r = tid) (db_taskMessages db))
         in if qs = [] then 1 else Max (set qs) + 1)
   \<and> (\<exists>rs. Drizzle_getMessages tid db = map (dbToMessage \<circ> fst) rs
          \<and> sorted (map (tm_sequence \<circ> snd) rs)
          \<and> (\<forall>q. filter (\<lambda>p. (tm_sequence \<circ> snd) p = q) rs
                   = filter (\<lambda>p. (tm_sequence \<circ> snd) p = q) (joined_rows tid db)))
   \<and> ((r, tm) \<in> set (joined_rows tid db) \<longleftrightarrow>
         r \<in> set (db_messages db) \<and> tm \<in> set (db_taskMessages db)
         \<and> msg_id r = tm_messageId tm \<and> tm_taskId tm = tid)"
  using Memory_getMessages_saveMessages [of tid ms s]
    Drizzle_getMessages_saveMessages [of calls db tid]
    Drizzle_saveMessage_fresh [of uuid db tid m]
    nextSequence_is_max_plus_one [of tid db]
    Drizzle_getMessages_ordered [of tid db]
    joined_rows_iff [of r tm tid db]
  by blast

theorem C7_messages_in_call_order_witness:
  "Memory_getMessages ''t1'' (Memory_saveMessages ''t1'' [hello, addressed] MemoryStore_empty)
     = [hello, addressed]
   \<and> map_sum id (Drizzle_getMessages ''t1'')
        (Drizzle_saveMessages ''t1'' [(hello, ''u1''), (addressed, ''u2'')] drizzle_db)
     = Inr [stored_form hello, stored_form addressed]
   \<and> map_sum id (\<lambda>db. map tm_sequence (db_taskMessages db))
        (Drizzle_saveMessage ''t1'' hello ''u1'' drizzle_db)
     = Inr [1]
   \<and> Drizzle_getMessages ''t1'' shuffled_db = [stored_form addressed, stored_form hello]"
proof -
  note t = C7_messages_in_call_order
    [of "''t1''" "[hello, addressed]" MemoryStore_empty
        "[(hello, ''u1''), (addressed, ''u2'')]" drizzle_db "''u1''" hello]
  have e: "Memory_getMessages ''t1'' MemoryStore_empty = []"
    "Drizzle_getMessages ''t1'' drizzle_db = []"
    "nextSequence ''t1'' drizzle_db = 1" "db_taskMessages drizzle_db = []"
    by (simp_all add: Memory_getMessages_def MemoryStore_empty_def Drizzle_getMessages_def
        joined_rows_def nextSequence_def drizzle_db_eq)
  have h: "distinct (map snd [(hello, ''u1''), (addressed, ''u2'')])"
    "list_all (\<lambda>c. fresh_uuid (snd c) drizzle_db) [(hello, ''u1''), (addressed, ''u2'')]"
    by (simp_all add: fresh_in_drizzle_db)
  from t h fresh_in_drizzle_db obtain db' where
    "Drizzle_saveMessages ''t1'' [(hello, ''u1''), (addressed, ''u2'')] drizzle_db = Inr db'"
    "Drizzle_getMessages ''t1'' db' = Drizzle_getMessages ''t1'' drizzle_db
        @ map (stored_form \<circ> fst) [(hello, ''u1''), (addressed, ''u2'')]"
    by blast
  then have 2: "map_sum id (Drizzle_getMessages ''t1'')
        (Drizzle_saveMessages ''t1'' [(hello, ''u1''), (addressed, ''u2'')] drizzle_db)
     = Inr [stored_form hello, stored_form addressed]"
    by (simp add: e)
  from t have 1: "Memory_getMessages ''t1'' (Memory_saveMessages ''t1'' [hello, addressed] MemoryStore_empty)
     = [hello, addressed]"
    by (simp add: e)
  from t fresh_in_drizzle_db have 3: "map_sum id (\<lambda>db. map tm_sequence (db_taskMessages db))
        (Drizzle_saveMessage ''t1'' hello ''u1'' drizzle_db) = Inr [1]"
    by (simp add: e)
  from 1 2 3 shuffled_read show ?thesis by simp
qed

text \<open>
  Claim C7 as stated fails on "exactly those messages": the relational adapter returns a
  saved message without the \<^verbatim>\<open>taskId\<close> field it was saved with.
\<close>

theorem C7_drizzle_returns_stored_form:
  "map_sum id (Drizzle_getMessages ''t1'') (Drizzle_saveMessage ''t1'' addressed ''u1'' drizzle_db)
     = Inr [addressed\<lparr> taskId := None \<rparr>]
   \<and> addressed\<lparr> taskId := None \<rparr> \<noteq> addressed"
proof -
  from Drizzle_getMessages_saveMessage [of "''u1''" drizzle_db "''t1''" addressed, OF fresh_in_drizzle_db]
  have "map_sum id (Drizzle_getMessages ''t1'') (Drizzle_saveMessage ''t1'' addressed ''u1'' drizzle_db)
     = Inr [stored_form addressed]"
    by (auto simp add: Drizzle_getMessages_def joined_rows_def drizzle_db_eq)
  moreover have "stored_form addressed = addressed\<lparr> taskId := None \<rparr>"
    by (simp add: stored_form_def addressed_def hello_def or_null_def)
  moreover have "addressed\<lparr> taskId := None \<rparr> \<noteq> addressed"
  proof
    assume e: "addressed\<lparr> taskId := None \<rparr> = addressed"
    have "taskId (addressed\<lparr> taskId := None \<rparr>) = None" by simp
    then have "taskId addressed = None" by (simp only: e)
    then show False by (simp add: addressed_def)
  qed
  ultimately show ?thesis by simp
qed


section \<open>Resent messages\<close>

text \<open>
  Claim C6, as the in-memory adapter has it: \<^verbatim>\<open>saveMessage\<close> always appends. After two calls
  for one task, with the same \<^verbatim>\<open>messageId\<close> or not, the task's stored sequence ends with
  both messages, in call order, each with its own content.
\<close>

theorem C6_memory_saveMessage_appends:
  "Memory_getMessages tid (Memory_saveMessage tid m2 (Memory_saveMessage tid m1 s))
     = Memory_getMessages tid s @ [m1, m2]"
  by (simp add: Memory_getMessages_saveMessage)

text \<open>
  Claim C6 as stated fails: the same \<^verbatim>\<open>messageId\<close> saved twice with different parts leaves
  two entries in the in-memory adapter.
\<close>

theorem C6_resent_message_stored_twice:
  "messageId hello_again = messageId hello
   \<and> parts hello_again \<noteq> parts hello
   \<and> Memory_getMessages ''t1''
        (Memory_saveMessage ''t1'' hello_again (Memory_saveMessage ''t1'' hello MemoryStore_empty))
     = [hello, hello_again]"
  by (simp add: hello_again_def hello_def Memory_getMessages_def Memory_saveMessage_def
      MemoryStore_empty_def)

text \<open>
  The relational adapter keys its upsert on the row id drawn afresh by \<^verbatim>\<open>messageToDb\<close>, so
  there too a resent message is stored a second time.
\<close>

lemma Drizzle_resent_message_stored_twice:
  "map_sum id (map messageId \<circ> Drizzle_getMessages ''t1'')
     (Drizzle_saveMessages ''t1'' [(hello, ''u1''), (hello_again, ''u2'')] drizzle_db)
   = Inr [''m1'', ''m1'']"
proof -
  have "distinct (map snd [(hello, ''u1''), (hello_again, ''u2'')])"
    "list_all (\<lambda>c. fresh_uuid (snd c) drizzle_db) [(hello, ''u1''), (hello_again, ''u2'')]"
    by (simp_all add: fresh_in_drizzle_db)
  from Drizzle_getMessages_saveMessages [OF this fresh_in_drizzle_db(2)]
  show ?thesis
    by (auto simp add: Drizzle_getMessages_def joined_rows_def drizzle_db_eq stored_form_def
        hello_again_def hello_def)
qed

section \<open>Input validation\<close>

lemma find_upsert_row:
  assumes "key new = k" and "\<And>r. key (upd r) = key r"
  shows "find (\<lambda>r. key r = k) (upsert_row (\<lambda>r. key r = k) upd new rows)
       = Some (case find (\<lambda>r. key r = k) rows of None \<Rightarrow> new | Some r \<Rightarrow> upd r)"
  using assms by (induction rows) auto

lemma Drizzle_getTask_saveTask:
  "map_option (state \<circ> status) (Drizzle_getTask (task_id t) (Drizzle_saveTask t db))
     = Some (state (status t))"
proof -
  let ?upd = "\<lambda>r. r\<lparr> row_status := row_status (taskToDb t),
                   statusState := statusState (taskToDb t),
                   statusMessage := statusMessage (taskToDb t),
                   statusReason := statusReason (taskToDb t),
                   row_contextId := row_contextId (taskToDb t),
                   row_extensions := row_extensions (taskToDb t),
                   row_metadata := row_metadata (taskToDb t) \<rparr>"
  have "find (\<lambda>r. row_id r = task_id t)
          (upsert_row (\<lambda>r. row_id r = task_id t) ?upd (taskToDb t) (db_tasks db))
        = Some (case find (\<lambda>r. row_id r = task_id t) (db_tasks db) of
                  None \<Rightarrow> taskToDb t | Some r \<Rightarrow> ?upd r)"
    by (rule find_upsert_row) (simp_all add: taskToDb_def)
  then show ?thesis
    by (simp add: Drizzle_getTask_def Drizzle_saveTask_def Let_def dbToTask_def taskToDb_def
        split: option.splits)
qed

lemma Drizzle_saveMessage_tasks:
  "Drizzle_saveMessage tid m uuid db = Inr db' \<Longrightarrow> db_tasks db' = db_tasks db"
  by (auto simp add: Drizzle_saveMessage_def Let_def split: if_splits)

lemma Drizzle_saveTask_messages:
  "Drizzle_getMessages tid (Drizzle_saveTask t db) = Drizzle_getMessages tid db"
  "fresh_uuid u (Drizzle_saveTask t db) = fresh_uuid u db"
  by (simp_all add: Drizzle_getMessages_def joined_rows_def Drizzle_saveTask_def Let_def
      fresh_uuid_def)

text \<open>
  Claim C2, as the code has it. When the extracted input fails the input schema of the
  resolved executor (and the task and context ids are given), \<^verbatim>\<open>execute\<close> fails with the
  validation error, and by then it has run \<^verbatim>\<open>saveTask\<close> and \<^verbatim>\<open>saveMessage\<close>, which come
  before \<^verbatim>\<open>extractInput\<close>: with a storage adapter the task row of the id exists in state
  \<^verbatim>\<open>submitted\<close> (created, or overwritten by the fresh task), and the message is appended to
  the task's stored messages (in its stored form in the relational adapter, for a new
  row id). The executor is not run and nothing else changes.
\<close>

theorem C2_validation_fails_after_the_task_is_saved:
  assumes "findExecutor (extensions_or_empty m) executors = Some e"
    and "input e = Some parse" and "parse (extracted m) = None"
    and "or_string ot (taskId m) = Some tid" and "tid \<noteq> []"
    and "or_string oc (contextId m) = Some cid" and "cid \<noteq> []"
  shows "\<exists>st1 st2.
           storage_saveTask (submitted_task tid cid m now) (storage w) = Inr st1
         \<and> storage_saveMessage tid m uuid st1 = Inr st2
         \<and> execute executors m ot oc now uuid w = (Inl ValidationError, w\<lparr> storage := st2 \<rparr>)
         \<and> (if storage w = NoStorage then st2 = NoStorage
            else map_option (state \<circ> status) (storage_getTask tid st2) = Some Submitted)
         \<and> (case storage w of
              NoStorage \<Rightarrow> True
            | MemoryStorage s \<Rightarrow>
                storage_getTask tid st2 = Some (submitted_task tid cid m now)
                \<and> storage_getMessages tid st2 = Memory_getMessages tid s @ [m]
            | DrizzleStorage db \<Rightarrow>
                if fresh_uuid uuid db
                then storage_getMessages tid st2 = Drizzle_getMessages tid db @ [stored_form m]
                else True)"
proof -
  let ?t = "submitted_task tid cid m now"
  have t: "task_id ?t = tid" "state (status ?t) = Submitted"
    by (simp_all add: submitted_task_def)
  have ex: "execute executors m ot oc now uuid w = (Inl ValidationError, w\<lparr> storage := st2 \<rparr>)"
    if "storage_saveTask ?t (storage w) = Inr st1" and "storage_saveMessage tid m uuid st1 = Inr st2"
    for st1 st2
    using assms that by (simp add: execute_def with_storage_def extractInput_def)
  show ?thesis
  proof (cases "storage w")
    case NoStorage
    with ex [of NoStorage NoStorage] show ?thesis by simp
  next
    case (MemoryStorage s)
    let ?s2 = "Memory_saveMessage tid m (Memory_saveTask ?t s)"
    have "storage_getTask tid (MemoryStorage ?s2) = Some ?t"
      "storage_getMessages tid (MemoryStorage ?s2) = Memory_getMessages tid s @ [m]"
      by (simp_all add: Memory_getTask_def Memory_saveMessage_def Memory_saveTask_def
          Memory_getMessages_def Let_def t)
    with MemoryStorage ex [of "MemoryStorage (Memory_saveTask ?t s)" "MemoryStorage ?s2"] t
    show ?thesis by simp
  next
    case (DrizzleStorage db)
    let ?db1 = "Drizzle_saveTask ?t db"
    have "task_exists tid ?db1" using task_exists_saveTask [of ?t db] by (simp add: t)
    then have fk: "fk_ok tid ?db1" by (simp add: fk_ok_def)
    from Drizzle_saveMessage_succeeds [OF fk, of m uuid]
    obtain db2 where s2: "Drizzle_saveMessage tid m uuid ?db1 = Inr db2" by blast
    have "Drizzle_getTask tid db2 = Drizzle_getTask tid ?db1"
      using Drizzle_saveMessage_tasks [OF s2] by (simp add: Drizzle_getTask_def)
    with Drizzle_getTask_saveTask [of ?t db]
    have g: "map_option (state \<circ> status) (Drizzle_getTask tid db2) = Some Submitted"
      by (simp add: t)
    have ms: "Drizzle_getMessages tid db2 = Drizzle_getMessages tid db @ [stored_form m]"
      if "fresh_uuid uuid db"
    proof -
      from that have "fresh_uuid uuid ?db1" by (simp add: Drizzle_saveTask_messages)
      from Drizzle_getMessages_saveMessage [OF this fk, of m] s2
      show ?thesis by (simp add: Drizzle_saveTask_messages)
    qed
    from DrizzleStorage s2 g ms ex [of "DrizzleStorage ?db1" "DrizzleStorage db2"]
    show ?thesis by simp
  qed
qed

theorem C2_validation_fails_after_the_task_is_saved_witness:
  "fst (execute registry no_text (Some ''t1'') (Some ''c1'') ''now'' ''u1'' drizzle_world)
     = Inl ValidationError
   \<and> map_option (state \<circ> status)
        (storage_getTask ''t1''
           (storage (snd (execute registry no_text (Some ''t1'') (Some ''c1'') ''now'' ''u1''
                            drizzle_world))))
     = Some Submitted
   \<and> storage_getMessages ''t1''
        (storage (snd (execute registry no_text (Some ''t1'') (Some ''c1'') ''now'' ''u1''
                         drizzle_world)))
     = [stored_form no_text]"
proof -
  have h: "findExecutor (extensions_or_empty no_text) registry = Some echo"
    "input echo = Some text_schema" "text_schema (extracted no_text) = None"
    "or_string (Some ''t1'') (taskId no_text) = Some ''t1''"
    "or_string (Some ''c1'') (contextId no_text) = Some ''c1''"
    by (simp_all add: extensions_or_empty_def no_text_def registry_values echo_def
        text_schema_def extracted_def or_string_def)
  have d: "storage drizzle_world = DrizzleStorage drizzle_db" "fresh_uuid ''u1'' drizzle_db"
    "Drizzle_getMessages ''t1'' drizzle_db = []"
    by (simp_all add: drizzle_world_def fresh_uuid_def Drizzle_getMessages_def
        joined_rows_def drizzle_db_eq)
  from C2_validation_fails_after_the_task_is_saved
    [OF h(1) h(2) h(3) h(4) _ h(5), of "''now''" drizzle_world "''u1''"]
  show ?thesis by (auto simp add: d)
qed

text \<open>
  Claim C2 as stated fails: the echo executor wants a text, the message has none. The call
  fails with the validation error; before it the store had no task \<^verbatim>\<open>t1\<close> and no message,
  after it the store has the task row and the message.
\<close>

theorem C2_failed_call_has_written:
  "fst (execute registry no_text (Some ''t1'') (Some ''c1'') ''now'' ''u1'' memory_world)
     = Inl ValidationError
   \<and> storage_getTask ''t1'' (storage memory_world) = None
   \<and> storage_getMessages ''t1'' (storage memory_world) = []
   \<and> storage_getTask ''t1''
        (storage (snd (execute registry no_text (Some ''t1'') (Some ''c1'') ''now'' ''u1''
                         memory_world)))
     = Some (submitted_task ''t1'' ''c1'' no_text ''now'')
   \<and> storage_getMessages ''t1''
        (storage (snd (execute registry no_text (Some ''t1'') (Some ''c1'') ''now'' ''u1''
                         memory_world)))
     = [no_text]"
proof -
  have h: "findExecutor (extensions_or_empty no_text) registry = Some echo"
    by (simp add: extensions_or_empty_def no_text_def registry_values)
  have e: "extractInput no_text (input echo) = Inl ValidationError"
    by (simp add: extractInput_def echo_def text_schema_def extracted_def no_text_def)
  have i: "or_string (Some ''t1'') (taskId no_text) = Some ''t1''"
    "or_string (Some ''c1'') (contextId no_text) = Some ''c1''"
    by (simp_all add: or_string_def)
  show ?thesis
    by (simp add: execute_def h e i with_storage_def memory_world_def MemoryStore_empty_def
        Memory_getTask_def Memory_getMessages_def Memory_saveTask_def Memory_saveMessage_def
        submitted_task_def Let_def)
qed

section \<open>Files\<close>

text \<open>
  Claim C9, as the code has it. \<^verbatim>\<open>FileSchema\<close> accepts a value exactly when it is an object
  whose \<^verbatim>\<open>mimeType\<close> and \<^verbatim>\<open>name\<close>, where present, are strings, and that has a string
  \<^verbatim>\<open>bytes\<close> or a \<^verbatim>\<open>uri\<close> that is a URL. A value with neither field is rejected. A value with
  both is accepted: with a string \<^verbatim>\<open>bytes\<close> as the bytes file, the \<^verbatim>\<open>uri\<close> dropped from the
  result; otherwise as the uri file.
\<close>

theorem C9_FileSchema_accepts_bytes_or_uri:
  "(FileSchema url v \<noteq> None \<longleftrightarrow>
      (\<exists>kvs. v = JObj kvs \<and> FileBaseSchema kvs \<and>
             (is_string (map_of kvs ''bytes'') \<or> is_url_string url (map_of kvs ''uri''))))
   \<and> (map_of kvs ''bytes'' = None \<and> map_of kvs ''uri'' = None \<longrightarrow>
        FileSchema url (JObj kvs) = None)
   \<and> (FileBaseSchema kvs \<and> is_string (map_of kvs ''bytes'') \<longrightarrow>
        FileSchema url (JObj kvs) = Some (JObj (shape_keys [''mimeType'', ''name'', ''bytes''] kvs)))
   \<and> (FileBaseSchema kvs \<and> \<not> is_string (map_of kvs ''bytes'')
        \<and> is_url_string url (map_of kvs ''uri'') \<longrightarrow>
        FileSchema url (JObj kvs) = Some (JObj (shape_keys [''mimeType'', ''name'', ''uri''] kvs)))"
proof (intro conjI impI)
  show "FileSchema url v \<noteq> None \<longleftrightarrow>
      (\<exists>kvs. v = JObj kvs \<and> FileBaseSchema kvs \<and>
             (is_string (map_of kvs ''bytes'') \<or> is_url_string url (map_of kvs ''uri'')))"
    by (cases v) (auto simp add: FileSchema_def split: option.splits if_splits)
next
  assume "map_of kvs ''bytes'' = None \<and> map_of kvs ''uri'' = None"
  then show "FileSchema url (JObj kvs) = None"
    by (simp add: FileSchema_def)
next
  assume "FileBaseSchema kvs \<and> is_string (map_of kvs ''bytes'')"
  then show "FileSchema url (JObj kvs) = Some (JObj (shape_keys [''mimeType'', ''name'', ''bytes''] kvs))"
    by (simp add: FileSchema_def)
next
  assume "FileBaseSchema kvs \<and> \<not> is_string (map_of kvs ''bytes'')
        \<and> is_url_string url (map_of kvs ''uri'')"
  then show "FileSchema url (JObj kvs) = Some (JObj (shape_keys [''mimeType'', ''name'', ''uri''] kvs))"
    by (simp add: FileSchema_def)
qed

theorem C9_FileSchema_accepts_bytes_or_uri_witness:
  "FileSchema example_url file_neither = None
   \<and> FileSchema example_url file_both
       = Some (JObj [(''mimeType'', JStr ''text/plain''), (''bytes'', JStr ''SGVsbG8='')])
   \<and> FileSchema example_url file_uri
       = Some (JObj [(''uri'', JStr ''https://example.com/hello.txt'')])"
proof -
  note n = C9_FileSchema_accepts_bytes_or_uri
    [of example_url file_neither "[(''mimeType'', JStr ''text/plain'')]"]
  note b = C9_FileSchema_accepts_bytes_or_uri
    [of example_url file_both "[(''bytes'', JStr ''SGVsbG8=''),
        (''uri'', JStr ''https://example.com/hello.txt''), (''mimeType'', JStr ''text/plain'')]"]
  note u = C9_FileSchema_accepts_bytes_or_uri
    [of example_url file_uri "[(''uri'', JStr ''https://example.com/hello.txt'')]"]
  from n have 1: "FileSchema example_url file_neither = None"
    by (simp add: file_neither_def)
  from b have 2: "FileSchema example_url file_both
       = Some (JObj [(''mimeType'', JStr ''text/plain''), (''bytes'', JStr ''SGVsbG8='')])"
    by (simp add: file_both_def FileBaseSchema_def shape_keys_def)
  from u have 3: "FileSchema example_url file_uri
       = Some (JObj [(''uri'', JStr ''https://example.com/hello.txt'')])"
    by (simp add: file_uri_def FileBaseSchema_def shape_keys_def example_url_def)
  from 1 2 3 show ?thesis by simp
qed

text \<open>
  Claim C9 as stated fails: a file with both \<^verbatim>\<open>bytes\<close> and \<^verbatim>\<open>uri\<close> passes the file schema
  and the file-part schema.
\<close>

theorem C9_file_with_bytes_and_uri_accepted:
  "FileSchema example_url file_both
     = Some (JObj [(''mimeType'', JStr ''text/plain''), (''bytes'', JStr ''SGVsbG8='')])
   \<and> FilePartSchema example_url (JObj [(''kind'', JStr ''file''), (''file'', file_both)])
     = Some (JObj [(''kind'', JStr ''file''),
                   (''file'', JObj [(''mimeType'', JStr ''text/plain''), (''bytes'', JStr ''SGVsbG8='')])])"
  by (simp add: FileSchema_def file_both_def FileBaseSchema_def shape_keys_def)

end
